theory Spec2Isabelle
  imports Main
begin

section \<open>Strings\<close>

text \<open>
  Python strings are modelled as \<open>string\<close> (lists of 8-bit characters). The messages of
  the script that are written in Chinese, and its emoji icons, are rendered here as ASCII
  text; no property below depends on their wording, only on where they are emitted.
\<close>

text \<open>\<open>hay.startswith(needle)\<close>, the auxiliary of the substring test.\<close>

fun starts_with :: "string \<Rightarrow> string \<Rightarrow> bool" where
  "starts_with [] hay = True"
| "starts_with (c # cs) [] = False"
| "starts_with (c # cs) (h # hs) = (c = h \<and> starts_with cs hs)"

text \<open>Python's \<open>needle in hay\<close> on strings.\<close>

fun str_in :: "string \<Rightarrow> string \<Rightarrow> bool" where
  "str_in needle [] = (needle = [])"
| "str_in needle (h # hs) = (starts_with needle (h # hs) \<or> str_in needle hs)"

text \<open>\<open>str.lower()\<close>, on the ASCII letters (URLs and the matched phrases are ASCII).\<close>

definition lower_char :: "char \<Rightarrow> char" where
  "lower_char c =
     (case map_of (zip ''ABCDEFGHIJKLMNOPQRSTUVWXYZ'' ''abcdefghijklmnopqrstuvwxyz'') c of
        Some l \<Rightarrow> l
      | None \<Rightarrow> c)"

definition lower :: "string \<Rightarrow> string" where
  "lower s = map lower_char s"

text \<open>\<open>str(n)\<close> for a natural number and the format \<open>{n:02d}\<close>.\<close>

definition digit :: "nat \<Rightarrow> char" where
  "digit d = ''0123456789'' ! d"

fun str_of_nat :: "nat \<Rightarrow> string" where
  "str_of_nat n =
     (if n < 10 then [digit n]
      else str_of_nat (n div 10) @ [digit (n mod 10)])"

declare str_of_nat.simps [simp del]

definition fmt_02d :: "nat \<Rightarrow> string" where
  "fmt_02d n = (if n < 10 then CHR ''0'' # str_of_nat n else str_of_nat n)"

text \<open>\<open>str(x)\<close> inside an f-string, for a value that may be \<open>None\<close>.\<close>

definition str_of_opt :: "string option \<Rightarrow> string" where
  "str_of_opt v = (case v of None \<Rightarrow> ''None'' | Some s \<Rightarrow> s)"

text \<open>Python truthiness of an optional string: \<open>None\<close> and \<open>''\<close> are false.\<close>

definition truthy :: "string option \<Rightarrow> bool" where
  "truthy v = (case v of None \<Rightarrow> False | Some s \<Rightarrow> s \<noteq> [])"

text \<open>\<open>sep.join(xs)\<close>.\<close>

fun join :: "string \<Rightarrow> string list \<Rightarrow> string" where
  "join sep [] = []"
| "join sep [x] = x"
| "join sep (x # y # ys) = x @ sep @ join sep (y # ys)"

text \<open>\<open>xs[-n:]\<close> for \<open>n > 0\<close>: the last \<open>n\<close> elements, all of them when there are fewer.\<close>

definition last_n :: "nat \<Rightarrow> 'a list \<Rightarrow> 'a list" where
  "last_n n xs = drop (length xs - n) xs"

definition CLAW_CLOUD_URL :: string where
  "CLAW_CLOUD_URL = ''https://eu-central-1.run.claw.cloud''"

definition SIGNIN_URL :: string where
  "SIGNIN_URL = CLAW_CLOUD_URL @ ''/signin''"

section \<open>The world outside the script\<close>

text \<open>
  The browser, the network, the clock and the file system are external. They are a
  parameter of the model: a record \<open>'w host\<close> of functions over an arbitrary type \<open>'w\<close> of
  world states. A call that can raise returns \<open>Inl msg\<close> (or \<open>Some msg\<close>) for
  \<open>Exception(msg)\<close>. Every call the script makes is appended to a trace of events, so that
  what the script did, and in which order, can be stated.

  Every Playwright call, \<open>requests.post\<close> and every file operation can raise; the
  calls that start and stop the browser (\<open>sync_playwright\<close>, \<open>launch\<close>, \<open>new_context\<close>,
  \<open>new_page\<close>, \<open>close\<close>) are among them, although the source never guards them. Only
  \<open>print\<close>, \<open>time.sleep\<close>, \<open>time.strftime\<close>, \<open>os.path.exists\<close> and reading \<open>page.url\<close> are
  taken not to raise.
\<close>

type_synonym cookie = "(string \<times> string) list"

datatype lifecycle = Start | Launch | NewContext | NewPage | Close | Stop

datatype action =
    Goto string
  | WaitLoad
  | Screenshot string
  | Click string
  | Fill string string

datatype text_query = InnerText string | Content | Title

record request =
  req_url :: string
  req_data :: "(string \<times> string) list"
  req_file :: "(string \<times> string) option"

datatype event =
    Print string
  | PrintExc string
  | Sleep nat
  | Life lifecycle
  | Act action
  | AskVisible string
  | AskText text_query
  | AskCookies
  | Post request
  | Opened string
  | Written string "cookie list"

record 'w host =
  page_url :: "'w \<Rightarrow> string"
  lifecycle_do :: "lifecycle \<Rightarrow> 'w \<Rightarrow> string option \<times> 'w"
  page_do :: "action \<Rightarrow> 'w \<Rightarrow> string option \<times> 'w"
  is_visible :: "string \<Rightarrow> 'w \<Rightarrow> (string + bool) \<times> 'w"
  page_text :: "text_query \<Rightarrow> 'w \<Rightarrow> (string + string) \<times> 'w"
  context_cookies :: "'w \<Rightarrow> (string + cookie list) \<times> 'w"
  sleep_do :: "nat \<Rightarrow> 'w \<Rightarrow> 'w"
  strftime :: "'w \<Rightarrow> string"
  path_exists :: "string \<Rightarrow> 'w \<Rightarrow> bool"
  open_rb :: "string \<Rightarrow> 'w \<Rightarrow> string option"
  http_post :: "request \<Rightarrow> 'w \<Rightarrow> (string + nat) \<times> 'w"
  open_w :: "string \<Rightarrow> 'w \<Rightarrow> string option \<times> 'w"
  json_dump :: "string \<Rightarrow> cookie list \<Rightarrow> 'w \<Rightarrow> string option \<times> 'w"
  close_w :: "string \<Rightarrow> 'w \<Rightarrow> string option \<times> 'w"

section \<open>The objects of the script\<close>

record telegram_notifier =
  bot_token :: "string option"
  chat_id :: "string option"
  enabled :: bool

text \<open>
  The current world state and the trace of the calls made so far, together with the
  fields of \<open>AutoLogin\<close>.
\<close>

record 'w state =
  world :: 'w
  trace :: "event list"
  username :: "string option"
  token :: "string option"
  screenshot_count :: nat
  screenshots :: "string list"
  telegram :: telegram_notifier
  logs :: "string list"
  debug :: bool

datatype level = INFO | SUCCESS | ERROR | WARN | STEP

subsection \<open>Primitive calls\<close>

definition emit :: "event \<Rightarrow> 'w state \<Rightarrow> 'w state" where
  "emit e st = st\<lparr>trace := trace st @ [e]\<rparr>"

definition print :: "string \<Rightarrow> 'w state \<Rightarrow> 'w state" where
  "print s st = emit (Print s) st"

definition sleep :: "'w host \<Rightarrow> nat \<Rightarrow> 'w state \<Rightarrow> 'w state" where
  "sleep H n st = emit (Sleep n) (st\<lparr>world := sleep_do H n (world st)\<rparr>)"

definition life :: "'w host \<Rightarrow> lifecycle \<Rightarrow> 'w state \<Rightarrow> (string + unit) \<times> 'w state" where
  "life H c st =
     (case lifecycle_do H c (world st) of
        (None, w) \<Rightarrow> (Inr (), emit (Life c) (st\<lparr>world := w\<rparr>))
      | (Some e, w) \<Rightarrow> (Inl e, emit (Life c) (st\<lparr>world := w\<rparr>)))"

definition url :: "'w host \<Rightarrow> 'w state \<Rightarrow> string" where
  "url H st = page_url H (world st)"

definition act :: "'w host \<Rightarrow> action \<Rightarrow> 'w state \<Rightarrow> (string + unit) \<times> 'w state" where
  "act H a st =
     (case page_do H a (world st) of
        (None, w) \<Rightarrow> (Inr (), emit (Act a) (st\<lparr>world := w\<rparr>))
      | (Some e, w) \<Rightarrow> (Inl e, emit (Act a) (st\<lparr>world := w\<rparr>)))"

definition ask_visible :: "'w host \<Rightarrow> string \<Rightarrow> 'w state \<Rightarrow> (string + bool) \<times> 'w state" where
  "ask_visible H sel st =
     (case is_visible H sel (world st) of
        (r, w) \<Rightarrow> (r, emit (AskVisible sel) (st\<lparr>world := w\<rparr>)))"

definition ask_text :: "'w host \<Rightarrow> text_query \<Rightarrow> 'w state \<Rightarrow> (string + string) \<times> 'w state" where
  "ask_text H q st =
     (case page_text H q (world st) of
        (r, w) \<Rightarrow> (r, emit (AskText q) (st\<lparr>world := w\<rparr>)))"

definition ask_cookies :: "'w host \<Rightarrow> 'w state \<Rightarrow> (string + cookie list) \<times> 'w state" where
  "ask_cookies H st =
     (case context_cookies H (world st) of
        (r, w) \<Rightarrow> (r, emit AskCookies (st\<lparr>world := w\<rparr>)))"

text \<open>
  \<open>with open(path, 'w') as f: json.dump(cookies, f, indent=2)\<close>, in its three steps.
  \<open>open\<close> creates or truncates the file: from then on it exists, whatever follows, and
  the event \<open>Opened\<close> records that. \<open>json.dump\<close> may raise and leave the file incomplete;
  the \<open>with\<close> statement closes the file in every case, and the close may raise as well
  (its exception is then the one that leaves). The event \<open>Written\<close> is recorded when the
  dump and the close have both succeeded: only then does the file hold the whole list.
\<close>

definition dump_json :: "'w host \<Rightarrow> string \<Rightarrow> cookie list \<Rightarrow> 'w state \<Rightarrow> (string + unit) \<times> 'w state" where
  "dump_json H path cs st =
     (case open_w H path (world st) of
        (Some e, w) \<Rightarrow> (Inl e, st\<lparr>world := w\<rparr>)
      | (None, w) \<Rightarrow>
          (let st1 = emit (Opened path) (st\<lparr>world := w\<rparr>)
           in case json_dump H path cs (world st1) of
                (Some e, w1) \<Rightarrow>
                  (case close_w H path w1 of
                     (Some e2, w2) \<Rightarrow> (Inl e2, st1\<lparr>world := w2\<rparr>)
                   | (None, w2) \<Rightarrow> (Inl e, st1\<lparr>world := w2\<rparr>))
              | (None, w1) \<Rightarrow>
                  (case close_w H path w1 of
                     (Some e2, w2) \<Rightarrow> (Inl e2, st1\<lparr>world := w2\<rparr>)
                   | (None, w2) \<Rightarrow> (Inr (), emit (Written path cs) (st1\<lparr>world := w2\<rparr>)))))"

text \<open>Sequencing that lets an exception pass through.\<close>

definition seq :: "(string + 'a) \<times> 's \<Rightarrow> ('a \<Rightarrow> 's \<Rightarrow> (string + 'b) \<times> 's) \<Rightarrow> (string + 'b) \<times> 's" where
  "seq m f = (case m of (Inl e, s) \<Rightarrow> (Inl e, s) | (Inr x, s) \<Rightarrow> f x s)"

section \<open>TelegramNotifier\<close>

definition telegram_init :: "(string \<rightharpoonup> string) \<Rightarrow> telegram_notifier \<times> event list" where
  "telegram_init environ =
     (let t = environ ''TG_BOT_TOKEN'';
          c = environ ''TG_CHAT_ID'';
          en = (truthy t \<and> truthy c)
      in (\<lparr>bot_token = t, chat_id = c, enabled = en\<rparr>,
          if \<not> en then [Print ''Telegram not configured, notifications skipped''] else []))"

definition api_url :: "telegram_notifier \<Rightarrow> string \<Rightarrow> string" where
  "api_url t method = ''https://api.telegram.org/bot'' @ str_of_opt (bot_token t) @ ''/'' @ method"

text \<open>\<open>requests.post\<close> inside its \<open>try\<close>: the answer is whether the status code is 200.\<close>

definition post :: "'w host \<Rightarrow> request \<Rightarrow> string \<Rightarrow> 'w state \<Rightarrow> bool \<times> 'w state" where
  "post H req failure st =
     (case http_post H req (world st) of
        (Inr code, w) \<Rightarrow> (code = 200, emit (Post req) (st\<lparr>world := w\<rparr>))
      | (Inl e, w) \<Rightarrow> (False, print (failure @ e) (emit (Post req) (st\<lparr>world := w\<rparr>))))"

definition send_message :: "'w host \<Rightarrow> string \<Rightarrow> 'w state \<Rightarrow> bool \<times> 'w state" where
  "send_message H message st =
     (if \<not> enabled (telegram st) then (False, st)
      else post H
        \<lparr>req_url = api_url (telegram st) ''sendMessage'',
         req_data = [(''chat_id'', str_of_opt (chat_id (telegram st))),
                     (''text'', message), (''parse_mode'', ''HTML'')],
         req_file = None\<rparr>
        ''Sending Telegram message failed: '' st)"

definition send_photo :: "'w host \<Rightarrow> string \<Rightarrow> string \<Rightarrow> 'w state \<Rightarrow> bool \<times> 'w state" where
  "send_photo H photo_path caption st =
     (if \<not> enabled (telegram st) then (False, st)
      else if \<not> path_exists H photo_path (world st)
      then (False, print (''Photo does not exist: '' @ photo_path) st)
      else (case open_rb H photo_path (world st) of
              Some e \<Rightarrow> (False, print (''Sending Telegram photo failed: '' @ e) st)
            | None \<Rightarrow> post H
                \<lparr>req_url = api_url (telegram st) ''sendPhoto'',
                 req_data = [(''chat_id'', str_of_opt (chat_id (telegram st))),
                             (''caption'', caption)],
                 req_file = Some (''photo'', photo_path)\<rparr>
                ''Sending Telegram photo failed: '' st))"

definition send_document :: "'w host \<Rightarrow> string \<Rightarrow> string \<Rightarrow> 'w state \<Rightarrow> bool \<times> 'w state" where
  "send_document H file_path caption st =
     (if \<not> enabled (telegram st) then (False, st)
      else if \<not> path_exists H file_path (world st) then (False, st)
      else (case open_rb H file_path (world st) of
              Some e \<Rightarrow> (False, print (''Sending Telegram file failed: '' @ e) st)
            | None \<Rightarrow> post H
                \<lparr>req_url = api_url (telegram st) ''sendDocument'',
                 req_data = [(''chat_id'', str_of_opt (chat_id (telegram st))),
                             (''caption'', caption)],
                 req_file = Some (''document'', file_path)\<rparr>
                ''Sending Telegram file failed: '' st))"

section \<open>AutoLogin\<close>

definition init :: "(string \<rightharpoonup> string) \<Rightarrow> 'w \<Rightarrow> 'w state" where
  "init environ w =
     \<lparr>world = w,
      trace = snd (telegram_init environ),
      username = environ ''GH_USERNAME'',
      token = environ ''GH_PAT'',
      screenshot_count = 0,
      screenshots = [],
      telegram = fst (telegram_init environ),
      logs = [],
      debug = (lower (case environ ''DEBUG_MODE'' of None \<Rightarrow> ''true'' | Some v \<Rightarrow> v) = ''true'')\<rparr>"

fun icon :: "level \<Rightarrow> string" where
  "icon INFO = ''(i)''"
| "icon SUCCESS = ''(ok)''"
| "icon ERROR = ''(x)''"
| "icon WARN = ''(!)''"
| "icon STEP = ''(>)''"

definition log :: "string \<Rightarrow> level \<Rightarrow> 'w state \<Rightarrow> 'w state" where
  "log message lvl st =
     (let log_line = icon lvl @ '' '' @ message;
          st1 = print log_line st
      in st1\<lparr>logs := logs st1 @ [log_line]\<rparr>)"

definition screenshot :: "'w host \<Rightarrow> string \<Rightarrow> 'w state \<Rightarrow> (string + string) \<times> 'w state" where
  "screenshot H name st =
     (let st1 = st\<lparr>screenshot_count := screenshot_count st + 1\<rparr>;
          filename = fmt_02d (screenshot_count st1) @ ''_'' @ name @ ''.png''
      in seq (act H (Screenshot filename) st1) (\<lambda>_ st2.
           (Inr filename,
            log (''Screenshot saved: '' @ filename) INFO
              (st2\<lparr>screenshots := screenshots st2 @ [filename]\<rparr>))))"

definition validate_credentials :: "'w state \<Rightarrow> bool \<times> 'w state" where
  "validate_credentials st =
     (if \<not> truthy (username st) then (False, log ''Error: GH_USERNAME is not set'' ERROR st)
      else if \<not> truthy (token st) then (False, log ''Error: GH_PAT is not set'' ERROR st)
      else (True,
            log (''Token: '' @ replicate 10 CHR ''*'' @ ''...'' @ last_n 4 (str_of_opt (token st))) INFO
              (log (''Username: '' @ str_of_opt (username st)) INFO st)))"

text \<open>
  \<open>find_and_click\<close>: the first selector that is visible and whose click does not raise;
  the bare \<open>except\<close> moves on to the next selector.
\<close>

fun find_and_click :: "'w host \<Rightarrow> string list \<Rightarrow> string \<Rightarrow> 'w state \<Rightarrow> bool \<times> 'w state" where
  "find_and_click H [] description st = (False, st)"
| "find_and_click H (selector # rest) description st =
     (case ask_visible H selector st of
        (Inr True, st1) \<Rightarrow>
          (case act H (Click selector) st1 of
             (Inr _, st2) \<Rightarrow> (True, log (''Clicked: '' @ description) SUCCESS st2)
           | (Inl _, st2) \<Rightarrow> find_and_click H rest description st2)
      | (_, st1) \<Rightarrow> find_and_click H rest description st1)"

definition error_selectors :: "string list" where
  "error_selectors = [''.flash-error'', ''.flash.flash-error'', ''#js-flash-container .flash-error'']"

fun first_error_text :: "'w host \<Rightarrow> string list \<Rightarrow> 'w state \<Rightarrow> string option \<times> 'w state" where
  "first_error_text H [] st = (None, st)"
| "first_error_text H (selector # rest) st =
     (case ask_visible H selector st of
        (Inr True, st1) \<Rightarrow>
          (case ask_text H (InnerText selector) st1 of
             (Inr t, st2) \<Rightarrow> (Some t, st2)
           | (Inl _, st2) \<Rightarrow> first_error_text H rest st2)
      | (_, st1) \<Rightarrow> first_error_text H rest st1)"

definition check_github_error :: "'w host \<Rightarrow> 'w state \<Rightarrow> string option \<times> 'w state" where
  "check_github_error H st = first_error_text H error_selectors st"

definition device_keywords :: "string list" where
  "device_keywords =
     [''verify your device'', ''device verification'', ''check your email'', ''verification code'']"

definition check_device_verification :: "'w host \<Rightarrow> 'w state \<Rightarrow> (string + bool) \<times> 'w state" where
  "check_device_verification H st =
     (if str_in ''sessions/verified-device'' (url H st) \<or> str_in ''device-verification'' (url H st)
      then (Inr True, st)
      else seq (ask_text H Content st) (\<lambda>content st1.
             (Inr (list_ex (\<lambda>kw. str_in kw (lower content)) device_keywords), st1)))"

definition check_2fa :: "'w host \<Rightarrow> 'w state \<Rightarrow> bool \<times> 'w state" where
  "check_2fa H st =
     (if str_in ''two-factor'' (url H st) then (True, st)
      else (case ask_visible H ''input[name=\"otp\"], input[name=\"app_otp\"], #otp'' st of
              (Inr v, st1) \<Rightarrow> (v, st1)
            | (Inl _, st1) \<Rightarrow> (False, st1)))"

text \<open>
  \<open>login_github\<close>, lines 186 to 215: the screenshots, filling in and submitting the form.
  \<open>Inr None\<close> is the early \<open>return False\<close> of the two \<open>except\<close> blocks, \<open>Inr (Some u)\<close>
  continues with \<open>current_url = u\<close>.
\<close>

definition login_github_submit :: "'w host \<Rightarrow> 'w state \<Rightarrow> (string + string option) \<times> 'w state" where
  "login_github_submit H st =
     seq (screenshot H ''github_login_page'' (log ''Logging in to GitHub...'' STEP st)) (\<lambda>_ st1.
       (case seq (act H (Fill ''input[name=\"login\"]'' (str_of_opt (username st1))) st1) (\<lambda>_ s.
               act H (Fill ''input[name=\"password\"]'' (str_of_opt (token s)))
                 (log ''Username entered'' INFO s)) of
          (Inl e, st2) \<Rightarrow> (Inr None, log (''Entering credentials failed: '' @ e) ERROR st2)
        | (Inr _, st2) \<Rightarrow>
            seq (screenshot H ''github_credentials_filled'' (log ''Token entered'' INFO st2)) (\<lambda>_ st3.
              (case act H (Click ''input[type=\"submit\"], button[type=\"submit\"]'') st3 of
                 (Inl e, st4) \<Rightarrow> (Inr None, log (''Clicking login failed: '' @ e) ERROR st4)
               | (Inr _, st4) \<Rightarrow>
                   seq (act H WaitLoad (sleep H 3 (log ''Login button clicked'' INFO st4))) (\<lambda>_ st5.
                     seq (screenshot H ''github_after_login'' st5) (\<lambda>_ st6.
                       (Inr (Some (url H st6)),
                        log (''Current page: '' @ url H st6) INFO st6)))))))"

text \<open>\<open>login_github\<close>, lines 217 to 248: the checks on the page that follows the submit.\<close>

definition login_github_checks :: "'w host \<Rightarrow> string \<Rightarrow> 'w state \<Rightarrow> (string + bool) \<times> 'w state" where
  "login_github_checks H current_url st =
     (case check_github_error H st of
        (error, st1) \<Rightarrow>
          if truthy error
          then (Inr False, log (''GitHub error: '' @ str_of_opt error) ERROR st1)
          else seq (check_device_verification H st1) (\<lambda>device st2.
            if device
            then seq (screenshot H ''github_device_verification''
                       (log ''Please log in to GitHub manually once to verify the device.'' WARN
                         (log ''Device verification required! GitHub sent a verification mail.'' ERROR st2)))
                   (\<lambda>_ st3. (Inr False, st3))
            else (case check_2fa H st2 of
                    (two_factor, st3) \<Rightarrow>
                      if two_factor
                      then seq (screenshot H ''github_two_factor''
                                 (log ''Two-factor authentication required! Cannot be automated.'' ERROR st3))
                             (\<lambda>_ st4. (Inr False, st4))
                      else if str_in ''github.com/login'' current_url \<or> str_in ''github.com/session'' current_url
                      then seq (ask_text H Content
                                 (log ''Still on the GitHub login page, login may have failed'' WARN st3))
                             (\<lambda>page_content st4.
                                if str_in ''Incorrect username or password'' page_content
                                then (Inr False, log ''Wrong username or password!'' ERROR st4)
                                else if str_in ''too many'' (lower page_content)
                                then (Inr False, log ''Too many login attempts, rate limited'' ERROR st4)
                                else (Inr True, st4))
                      else (Inr True, st3))))"

definition login_github :: "'w host \<Rightarrow> 'w state \<Rightarrow> (string + bool) \<times> 'w state" where
  "login_github H st =
     seq (login_github_submit H st) (\<lambda>r st1.
       (case r of
          None \<Rightarrow> (Inr False, st1)
        | Some current_url \<Rightarrow> login_github_checks H current_url st1))"

definition authorize_selectors :: "string list" where
  "authorize_selectors =
     [''button[name=\"authorize\"]'', ''button:has-text(\"Authorize\")'', ''#js-oauth-authorize-btn'']"

definition handle_oauth :: "'w host \<Rightarrow> 'w state \<Rightarrow> (string + bool) \<times> 'w state" where
  "handle_oauth H st =
     (if str_in ''github.com/login/oauth/authorize'' (url H st)
      then seq (screenshot H ''oauth_authorize'' (log ''Handling OAuth authorization...'' STEP st)) (\<lambda>_ st1.
             (case find_and_click H authorize_selectors ''authorize button'' st1 of
                (_, st2) \<Rightarrow> seq (act H WaitLoad (sleep H 3 st2)) (\<lambda>_ st3. (Inr True, st3))))
      else (Inr True, st))"

text \<open>
  One iteration of the loop of \<open>wait_redirect\<close> (lines 273 to 291), for the loop index
  \<open>i\<close>: \<open>Inr (Some b)\<close> is \<open>return b\<close>, \<open>Inr None\<close> goes on to the next iteration.
\<close>

definition wait_redirect_body :: "'w host \<Rightarrow> nat \<Rightarrow> 'w state \<Rightarrow> (string + bool option) \<times> 'w state" where
  "wait_redirect_body H i st =
     (let current_url = url H st in
      if str_in ''claw.cloud'' current_url \<and> \<not> str_in ''signin'' (lower current_url)
      then (Inr (Some True), log ''Redirected to ClawCloud!'' SUCCESS st)
      else if i > 10 \<and> (str_in ''github.com/login'' current_url \<or> str_in ''github.com/session'' current_url)
      then (Inr (Some False), log ''Stuck on the GitHub login page'' ERROR st)
      else seq (if str_in ''github.com/login/oauth/authorize'' current_url
                then handle_oauth H st else (Inr True, st)) (\<lambda>_ st1.
             (let st2 = sleep H 1 st1
              in (Inr None,
                  if i mod 5 = 0
                  then log (''  waiting... ('' @ str_of_nat i @ ''s)'') INFO st2
                  else st2))))"

text \<open>\<open>for i in range(max_wait)\<close>, from index \<open>i\<close> on, and the two lines after the loop.\<close>

function wait_redirect_loop :: "'w host \<Rightarrow> nat \<Rightarrow> nat \<Rightarrow> 'w state \<Rightarrow> (string + bool) \<times> 'w state" where
  "wait_redirect_loop H i max_wait st =
     (if i < max_wait
      then (case wait_redirect_body H i st of
              (Inl e, st1) \<Rightarrow> (Inl e, st1)
            | (Inr (Some b), st1) \<Rightarrow> (Inr b, st1)
            | (Inr None, st1) \<Rightarrow> wait_redirect_loop H (Suc i) max_wait st1)
      else (Inr False, log ''Timed out waiting for the redirect'' ERROR st))"
  by pat_completeness auto
termination
  by (relation "measure (\<lambda>(H, i, max_wait, st). max_wait - i)") auto

declare wait_redirect_loop.simps [simp del]

text \<open>Line 270, the log line before the loop.\<close>

definition wait_redirect_start :: "nat \<Rightarrow> 'w state \<Rightarrow> 'w state" where
  "wait_redirect_start max_wait st =
     log (''Waiting for the redirect to ClawCloud (at most '' @ str_of_nat max_wait @ '' seconds)...'')
       STEP st"

definition wait_redirect :: "'w host \<Rightarrow> nat \<Rightarrow> 'w state \<Rightarrow> (string + bool) \<times> 'w state" where
  "wait_redirect H max_wait st = wait_redirect_loop H 0 max_wait (wait_redirect_start max_wait st)"

text \<open>The URLs that the loop reads at line 273, in the order of the iterations.\<close>

function polled_urls :: "'w host \<Rightarrow> nat \<Rightarrow> nat \<Rightarrow> 'w state \<Rightarrow> string list" where
  "polled_urls H i max_wait st =
     (if i < max_wait
      then url H st #
           (case wait_redirect_body H i st of
              (Inr None, st1) \<Rightarrow> polled_urls H (Suc i) max_wait st1
            | _ \<Rightarrow> [])
      else [])"
  by pat_completeness auto
termination
  by (relation "measure (\<lambda>(H, i, max_wait, st). max_wait - i)") auto

declare polled_urls.simps [simp del]

text \<open>\<open>c.get('domain', '')\<close>.\<close>

definition cookie_domain :: "cookie \<Rightarrow> string" where
  "cookie_domain c = (case map_of c ''domain'' of None \<Rightarrow> [] | Some d \<Rightarrow> d)"

definition verify_login :: "'w host \<Rightarrow> 'w state \<Rightarrow> (string + bool) \<times> 'w state" where
  "verify_login H st =
     (let current_url = url H st in
      seq (ask_text H Title st) (\<lambda>title st1.
        (let st2 = log (''Page title: '' @ title) INFO (log (''Final page: '' @ current_url) INFO st1)
         in if \<not> str_in ''claw.cloud'' current_url
            then (Inr False, log ''Not on the ClawCloud domain!'' ERROR st2)
            else if str_in ''signin'' (lower current_url) \<or> str_in ''login'' (lower current_url)
            then (Inr False, log ''Still on the login page, login failed!'' ERROR st2)
            else seq (ask_cookies H st2) (\<lambda>cookies st3.
              (let claw_cookies = filter (\<lambda>c. str_in ''claw'' (cookie_domain c)) cookies
               in if length claw_cookies = 0
                  then (Inr False, log ''No ClawCloud cookies obtained!'' ERROR st3)
                  else seq (dump_json H ''cookies.json'' claw_cookies
                             (log (''Got '' @ str_of_nat (length claw_cookies) @ '' ClawCloud cookies'')
                                SUCCESS st3))
                         (\<lambda>_ st4. (Inr True, st4)))))))"

definition keepalive_pages :: "(string \<times> string) list" where
  "keepalive_pages = [(CLAW_CLOUD_URL @ ''/'', ''console home''), (CLAW_CLOUD_URL @ ''/apps'', ''app list'')]"

text \<open>
  The loop of \<open>keepalive\<close> (lines 337 to 349): \<open>False\<close> is the \<open>return False\<close> inside the
  loop, \<open>True\<close> the normal end of the loop.
\<close>

fun keepalive_visits :: "'w host \<Rightarrow> (string \<times> string) list \<Rightarrow> 'w state \<Rightarrow> bool \<times> 'w state" where
  "keepalive_visits H [] st = (True, st)"
| "keepalive_visits H ((u, name) # rest) st =
     (case seq (act H (Goto u) st) (\<lambda>_ s. act H WaitLoad s) of
        (Inl e, st1) \<Rightarrow>
          keepalive_visits H rest (log (''Visiting '' @ name @ '' failed: '' @ e) WARN st1)
      | (Inr _, st1) \<Rightarrow>
          if str_in ''signin'' (lower (url H st1))
          then (False, log (''Redirected to the login page while visiting '' @ name @ ''!'') ERROR st1)
          else keepalive_visits H rest (sleep H 2 (log (''Visited: '' @ name) SUCCESS st1)))"

definition keepalive :: "'w host \<Rightarrow> 'w state \<Rightarrow> (string + bool) \<times> 'w state" where
  "keepalive H st =
     (case keepalive_visits H keepalive_pages (log ''Visiting pages to keep the account active...'' STEP st) of
        (False, st1) \<Rightarrow> (Inr False, st1)
      | (True, st1) \<Rightarrow> seq (screenshot H ''keepalive_done'' st1) (\<lambda>_ st2. (Inr True, st2)))"

definition nl :: string where
  "nl = [CHR 0x0A]"

definition notification_text :: "bool \<Rightarrow> string \<Rightarrow> string option \<Rightarrow> string \<Rightarrow> string list \<Rightarrow> string" where
  "notification_text success error_msg user time all_logs =
     (let status = (if success then ''OK success'' else ''X failure'');
          message = nl @ ''<b>ClawCloud auto login notification</b>'' @ nl @ nl
                    @ ''<b>Status:</b> '' @ status @ nl
                    @ ''<b>User:</b> '' @ str_of_opt user @ nl
                    @ ''<b>Time:</b> '' @ time @ nl;
          message1 = (if error_msg \<noteq> [] then message @ nl @ ''<b>Error:</b> '' @ error_msg else message);
          recent_logs = last_n 10 all_logs
      in if recent_logs \<noteq> []
         then message1 @ nl @ nl @ ''<b>Recent logs:</b>'' @ nl @ join nl recent_logs
         else message1)"

text \<open>The loop of line 390 over \<open>self.screenshots[:-1]\<close>.\<close>

fun send_debug_photos :: "'w host \<Rightarrow> string list \<Rightarrow> 'w state \<Rightarrow> 'w state" where
  "send_debug_photos H [] st = st"
| "send_debug_photos H (shot # rest) st =
     send_debug_photos H rest (snd (send_photo H shot (''Debug screenshot: '' @ shot) st))"

definition send_notification :: "'w host \<Rightarrow> bool \<Rightarrow> string \<Rightarrow> 'w state \<Rightarrow> 'w state" where
  "send_notification H success error_msg st =
     (if \<not> enabled (telegram st) then st
      else
        (let message = notification_text success error_msg (username st) (strftime H (world st)) (logs st);
             st1 = snd (send_message H message st)
         in if screenshots st1 \<noteq> []
            then (let last_screenshot = last (screenshots st1);
                      caption = (if success then ''Final screenshot'' else ''Error screenshot'');
                      st2 = snd (send_photo H last_screenshot caption st1)
                  in if \<not> success \<and> length (screenshots st2) > 1
                     then send_debug_photos H (butlast (screenshots st2)) st2
                     else st2)
            else st1))"

section \<open>The main flow\<close>

text \<open>
  How the \<open>try\<close> block of \<open>run\<close> ends when it does not raise: it runs to its end (or
  returns), or it calls \<open>sys.exit(n)\<close>. \<open>SystemExit\<close> is not an \<open>Exception\<close>, so the
  handler of line 498 does not catch it.
\<close>

datatype flow = Completed | Exited nat

text \<open>How the process ends, and its exit status.\<close>

datatype outcome = Returned | SysExit nat | Uncaught string

fun exit_status :: "outcome \<Rightarrow> nat" where
  "exit_status Returned = 0"
| "exit_status (SysExit n) = n"
| "exit_status (Uncaught e) = 1"

definition github_selectors :: "string list" where
  "github_selectors =
     [''button:has-text(\"GitHub\")'', ''a:has-text(\"GitHub\")'',
      ''button:has-text(\"Continue with GitHub\")'', ''[data-provider=\"github\"]'']"

text \<open>Lines 418 to 423: step 1, opening the sign-in page.\<close>

definition open_signin :: "'w host \<Rightarrow> 'w state \<Rightarrow> (string + unit) \<times> 'w state" where
  "open_signin H st =
     seq (act H (Goto SIGNIN_URL) (log ''Step 1: open the ClawCloud sign-in page'' STEP st)) (\<lambda>_ st1.
       seq (act H WaitLoad st1) (\<lambda>_ st2.
         seq (screenshot H ''clawcloud_signin'' (sleep H 2 st2)) (\<lambda>_ st3. (Inr (), st3))))"

text \<open>Lines 427 to 435: the branch taken when the URL has no \<open>signin\<close>.\<close>

definition already_logged_in :: "'w host \<Rightarrow> 'w state \<Rightarrow> (string + flow) \<times> 'w state" where
  "already_logged_in H st =
     seq (verify_login H (log ''Already logged in!'' SUCCESS st)) (\<lambda>ok st1.
       if ok
       then seq (keepalive H st1) (\<lambda>_ st2.
              (Inr Completed,
               print (nl @ ''Success: already logged in!'' @ nl) (send_notification H True [] st2)))
       else (Inr (Exited 1), send_notification H False ''Verifying the login state failed'' st1))"

text \<open>Lines 467 to 496: steps 4 to 6.\<close>

definition redirect_and_verify :: "'w host \<Rightarrow> 'w state \<Rightarrow> (string + flow) \<times> 'w state" where
  "redirect_and_verify H st =
     seq (wait_redirect H 45 (log ''Step 4: wait for the redirect'' STEP st)) (\<lambda>redirected st1.
       if \<not> redirected
       then seq (screenshot H ''redirect_failed'' st1) (\<lambda>_ st2.
              (Inr (Exited 1),
               print (nl @ ''Failure: no redirect to ClawCloud!'' @ nl)
                 (send_notification H False ''Redirect to ClawCloud failed'' st2)))
       else seq (screenshot H ''redirect_ok'' st1) (\<lambda>_ st2.
         seq (verify_login H (log ''Step 5: verify the login state'' STEP st2)) (\<lambda>ok st3.
           if \<not> ok
           then seq (screenshot H ''verify_failed'' st3) (\<lambda>_ st4.
                  (Inr (Exited 1),
                   print (nl @ ''Failure: login verification failed!'' @ nl)
                     (send_notification H False ''Login verification failed'' st4)))
           else seq (keepalive H (log ''Step 6: keep the account active'' STEP st3)) (\<lambda>_ st4.
                  (Inr Completed,
                   print (replicate 60 CHR ''='' @ nl)
                     (print ''Auto login succeeded!''
                       (print (nl @ replicate 60 CHR ''='')
                         (send_notification H True [] st4))))))))"

text \<open>Lines 437 to 465: steps 2 and 3, then the rest.\<close>

definition login_flow :: "'w host \<Rightarrow> 'w state \<Rightarrow> (string + flow) \<times> 'w state" where
  "login_flow H st =
     (case find_and_click H github_selectors ''GitHub button''
             (log ''Step 2: click the GitHub login button'' STEP st) of
        (False, st1) \<Rightarrow>
          seq (screenshot H ''button_not_found'' (log ''GitHub login button not found'' ERROR st1)) (\<lambda>_ st2.
            (Inr (Exited 1), send_notification H False ''GitHub login button not found'' st2))
      | (True, st1) \<Rightarrow>
          seq (act H WaitLoad (sleep H 3 st1)) (\<lambda>_ st2.
            seq (screenshot H ''after_github_click'' st2) (\<lambda>_ st3.
              (let st4 = log ''Step 3: GitHub authentication'' STEP st3
               in seq (if str_in ''github.com/login'' (url H st4) \<or> str_in ''github.com/session'' (url H st4)
                       then login_github H st4 else (Inr True, st4)) (\<lambda>logged_in st5.
                    if \<not> logged_in
                    then seq (screenshot H ''github_login_failed'' st5) (\<lambda>_ st6.
                           (Inr (Exited 1),
                            print (nl @ ''Failure: GitHub login failed!'' @ nl)
                              (send_notification H False ''GitHub login failed'' st6)))
                    else redirect_and_verify H st5)))))"

text \<open>The \<open>try\<close> block, lines 417 to 496.\<close>

definition session :: "'w host \<Rightarrow> 'w state \<Rightarrow> (string + flow) \<times> 'w state" where
  "session H st =
     seq (open_signin H st) (\<lambda>_ st1.
       if \<not> str_in ''signin'' (lower (url H st1))
       then already_logged_in H st1
       else login_flow H st1)"

text \<open>
  The handler, lines 498 to 504. Its screenshot is not guarded: when it raises, the
  exception leaves \<open>run\<close>.
\<close>

definition handler :: "'w host \<Rightarrow> string \<Rightarrow> 'w state \<Rightarrow> (string + flow) \<times> 'w state" where
  "handler H e st =
     seq (screenshot H ''exception'' (log (''Exception: '' @ e) ERROR st)) (\<lambda>_ st1.
       (Inr (Exited 1), send_notification H False e (emit (PrintExc e) st1)))"

text \<open>Lines 395 to 397, the banner.\<close>

definition print_banner :: "'w state \<Rightarrow> 'w state" where
  "print_banner st =
     print (replicate 60 CHR ''='' @ nl)
       (print ''ClawCloud auto login script''
         (print (nl @ replicate 60 CHR ''='') st))"

text \<open>Lines 404 to 414: the browser, its context and the page are made.\<close>

definition start_browser :: "'w host \<Rightarrow> 'w state \<Rightarrow> (string + unit) \<times> 'w state" where
  "start_browser H st =
     seq (life H Launch st) (\<lambda>_ st1.
       seq (life H NewContext st1) (\<lambda>_ st2. life H NewPage st2))"

text \<open>
  The \<open>try\<close> statement, lines 416 to 507: an exception of the block goes to the handler,
  and \<open>browser.close()\<close> runs in every case. When the close raises, its exception
  replaces whatever was on its way (a \<open>sys.exit\<close> included).
\<close>

definition try_session :: "'w host \<Rightarrow> 'w state \<Rightarrow> (string + flow) \<times> 'w state" where
  "try_session H st =
     (case (case session H st of
              (Inl e, st2) \<Rightarrow> handler H e st2
            | (Inr f, st2) \<Rightarrow> (Inr f, st2)) of
        (r, st3) \<Rightarrow>
          (case life H Close st3 of
             (Inl e, st4) \<Rightarrow> (Inl e, st4)
           | (Inr _, st4) \<Rightarrow> (r, st4)))"

text \<open>
  The \<open>with sync_playwright() as p\<close> statement, lines 403 to 507. When entering it
  raises, nothing else runs; otherwise Playwright is stopped when the block is left, in
  whatever way, and an exception of the stop replaces the way the block was left.
\<close>

definition with_playwright :: "'w host \<Rightarrow> 'w state \<Rightarrow> outcome \<times> 'w state" where
  "with_playwright H st =
     (case life H Start st of
        (Inl e, st1) \<Rightarrow> (Uncaught e, st1)
      | (Inr _, st1) \<Rightarrow>
          (case seq (start_browser H st1) (\<lambda>_ st2. try_session H st2) of
             (r, st3) \<Rightarrow>
               (case life H Stop st3 of
                  (Inl e, st4) \<Rightarrow> (Uncaught e, st4)
                | (Inr _, st4) \<Rightarrow>
                    (case r of
                       Inl e \<Rightarrow> Uncaught e
                     | Inr Completed \<Rightarrow> Returned
                     | Inr (Exited n) \<Rightarrow> SysExit n,
                     st4))))"

definition run :: "'w host \<Rightarrow> 'w state \<Rightarrow> outcome \<times> 'w state" where
  "run H st =
     (case validate_credentials (print_banner st) of
        (False, st1) \<Rightarrow> (SysExit 1, send_notification H False ''Credentials not configured'' st1)
      | (True, st1) \<Rightarrow> with_playwright H st1)"

text \<open>The script run as a program: \<open>AutoLogin().run()\<close>.\<close>

definition main :: "'w host \<Rightarrow> (string \<rightharpoonup> string) \<Rightarrow> 'w \<Rightarrow> outcome \<times> 'w state" where
  "main H environ w = run H (init environ w)"

section \<open>Notions used to state the properties\<close>

text \<open>The success test and the stuck-on-login test of the redirect waiter, on one URL.\<close>

definition redirect_ok :: "string \<Rightarrow> bool" where
  "redirect_ok u = (str_in ''claw.cloud'' u \<and> \<not> str_in ''signin'' (lower u))"

definition on_github_login :: "string \<Rightarrow> bool" where
  "on_github_login u = (str_in ''github.com/login'' u \<or> str_in ''github.com/session'' u)"

text \<open>
  The events of a trace that touch a file: \<open>Opened\<close> (the file is created or truncated)
  and \<open>Written\<close> (the file holds the whole list).
\<close>

definition file_event :: "event \<Rightarrow> bool" where
  "file_event e = (case e of Opened p \<Rightarrow> True | Written p cs \<Rightarrow> True | _ \<Rightarrow> False)"

definition file_events :: "event list \<Rightarrow> event list" where
  "file_events es = filter file_event es"

text \<open>The cookies whose domain contains the marker \<open>claw\<close>.\<close>

definition claw_cookies_of :: "cookie list \<Rightarrow> cookie list" where
  "claw_cookies_of cookies = filter (\<lambda>c. str_in ''claw'' (cookie_domain c)) cookies"

text \<open>The events that the error-banner check may cause, for a list of selectors.\<close>

definition banner_probe :: "string list \<Rightarrow> event \<Rightarrow> bool" where
  "banner_probe sels e =
     (case e of
        AskVisible s \<Rightarrow> s \<in> set sels
      | AskText q \<Rightarrow> (case q of InnerText s \<Rightarrow> s \<in> set sels | _ \<Rightarrow> False)
      | _ \<Rightarrow> False)"

text \<open>The calls that go to the browser.\<close>

definition browser_event :: "event \<Rightarrow> bool" where
  "browser_event e =
     (case e of
        Life c \<Rightarrow> True
      | Act a \<Rightarrow> True
      | AskVisible s \<Rightarrow> True
      | AskText q \<Rightarrow> True
      | AskCookies \<Rightarrow> True
      | _ \<Rightarrow> False)"

text \<open>
  The calls that only steps 2 to 4 make: visibility probes, clicks, form input, and
  reading the text or the content of the page.
\<close>

definition login_step_event :: "event \<Rightarrow> bool" where
  "login_step_event e =
     (case e of
        AskVisible s \<Rightarrow> True
      | Act a \<Rightarrow> (case a of Click s \<Rightarrow> True | Fill s v \<Rightarrow> True | _ \<Rightarrow> False)
      | AskText q \<Rightarrow> (case q of Title \<Rightarrow> False | _ \<Rightarrow> True)
      | _ \<Rightarrow> False)"

text \<open>
  An auxiliary form of \<open>seq\<close> for the proofs: the state of an exception goes through \<open>g\<close>.
\<close>

definition seq_then :: "('s \<Rightarrow> 's) \<Rightarrow> (string + 'a) \<times> 's \<Rightarrow> ('a \<Rightarrow> 's \<Rightarrow> (string + 'b) \<times> 's) \<Rightarrow> (string + 'b) \<times> 's" where
  "seq_then g m k = (case m of (Inl e, s) \<Rightarrow> (Inl e, g s) | (Inr x, s) \<Rightarrow> k x s)"

text \<open>
  The events of the steps that neither drive the login form nor talk to the notifier:
  printing, sleeping, the life cycle of the browser, navigation, waiting, screenshots, the
  title of the page, the cookies and the cookie file.
\<close>

definition plain_event :: "event \<Rightarrow> bool" where
  "plain_event e =
     (case e of
        Print m \<Rightarrow> True
      | PrintExc m \<Rightarrow> True
      | Sleep n \<Rightarrow> True
      | Life c \<Rightarrow> True
      | Act a \<Rightarrow> (case a of Click s \<Rightarrow> False | Fill s v \<Rightarrow> False | _ \<Rightarrow> True)
      | AskText q \<Rightarrow> (case q of Title \<Rightarrow> True | _ \<Rightarrow> False)
      | AskCookies \<Rightarrow> True
      | Opened p \<Rightarrow> True
      | Written p cs \<Rightarrow> True
      | _ \<Rightarrow> False)"

text \<open>
  What such steps leave as it is: the other events of the trace, and the notifier.
\<close>

definition marked :: "'w state \<Rightarrow> event list \<times> telegram_notifier" where
  "marked st = (filter (\<lambda>e. \<not> plain_event e) (trace st), telegram st)"

text \<open>The events of the login steps in the trace of a state.\<close>

definition steps :: "'w state \<Rightarrow> event list" where
  "steps st = filter login_step_event (trace st)"

subsection \<open>Example worlds\<close>

text \<open>
  A world in which every call succeeds and no element is visible. Its state is the number
  of seconds slept so far; the URL of the page is a function of it.
\<close>

definition quiet_host :: "(nat \<Rightarrow> string) \<Rightarrow> cookie list \<Rightarrow> nat host" where
  "quiet_host urls cookies =
     \<lparr>page_url = urls, lifecycle_do = (\<lambda>c w. (None, w)), page_do = (\<lambda>a w. (None, w)),
      is_visible = (\<lambda>sel w. (Inr False, w)), page_text = (\<lambda>q w. (Inr ''Console'', w)),
      context_cookies = (\<lambda>w. (Inr cookies, w)), sleep_do = (\<lambda>n w. w + n),
      strftime = (\<lambda>w. ''2024-01-01 00:00:00''), path_exists = (\<lambda>p w. True),
      open_rb = (\<lambda>p w. None), http_post = (\<lambda>r w. (Inr 200, w)),
      open_w = (\<lambda>p w. (None, w)), json_dump = (\<lambda>p c w. (None, w)),
      close_w = (\<lambda>p w. (None, w))\<rparr>"

definition example_state :: "nat state" where
  "example_state =
     \<lparr>world = 0, trace = [],
      username = Some ''alice'', token = Some ''ghp_secret1234'',
      screenshot_count = 0, screenshots = [],
      telegram = \<lparr>bot_token = Some ''tok'', chat_id = Some ''42'', enabled = True\<rparr>,
      logs = [], debug = True\<rparr>"

definition console_url :: string where
  "console_url = ''https://eu-central-1.run.claw.cloud/''"

definition example_cookies :: "cookie list" where
  "example_cookies =
     [[(''name'', ''session''), (''value'', ''abc''), (''domain'', ''.run.claw.cloud'')],
      [(''name'', ''gh''), (''value'', ''xyz''), (''domain'', ''github.com'')]]"

text \<open>The page stays on the GitHub login form for ever.\<close>

definition stuck_host :: "nat host" where
  "stuck_host = quiet_host (\<lambda>w. ''https://github.com/login'') []"

text \<open>The page leaves GitHub for the console after two seconds.\<close>

definition redirecting_host :: "nat host" where
  "redirecting_host =
     quiet_host (\<lambda>w. if w < 2 then ''https://github.com/sessions/x'' else console_url) example_cookies"

text \<open>The console page, with the session cookies.\<close>

definition console_host :: "nat host" where
  "console_host = quiet_host (\<lambda>w. console_url) example_cookies"

text \<open>The console page, on a machine whose disk is full: \<open>json.dump\<close> raises.\<close>

definition full_disk_host :: "nat host" where
  "full_disk_host =
     console_host\<lparr>json_dump := (\<lambda>p c w. (Some ''No space left on device'', w))\<rparr>"

text \<open>GitHub answers the login with an error banner.\<close>

definition banner_host :: "nat host" where
  "banner_host =
     (quiet_host (\<lambda>w. ''https://github.com/session'') [])
       \<lparr>is_visible := (\<lambda>sel w. (Inr (sel = ''.flash.flash-error''), w)),
        page_text := (\<lambda>q w. (Inr ''Incorrect username or password.'', w))\<rparr>"

text \<open>
  The session is alive until a number of navigations have been made: the world state
  counts the calls of \<open>page.goto\<close>, and the page is the console up to the \<open>k\<close>-th one and
  the sign-in page after it.
\<close>

definition expiring_host :: "nat \<Rightarrow> nat host" where
  "expiring_host k =
     (quiet_host (\<lambda>w. if w \<le> k then console_url else SIGNIN_URL) example_cookies)
       \<lparr>page_do := (\<lambda>a w. (None, case a of Goto u \<Rightarrow> Suc w | _ \<Rightarrow> w)),
        sleep_do := (\<lambda>n w. w)\<rparr>"

text \<open>The sign-in address answers with a page of another site.\<close>

definition elsewhere_host :: "nat host" where
  "elsewhere_host = quiet_host (\<lambda>w. ''https://example.com/'') []"

text \<open>Every call to the page raises.\<close>

definition crashed_host :: "nat host" where
  "crashed_host =
     (quiet_host (\<lambda>w. ''about:blank'') [])
       \<lparr>page_do := (\<lambda>a w. (Some ''Target closed'', w))\<rparr>"

subsection \<open>The states of a run from the example state\<close>

text \<open>
  The states that a run started in \<open>example_state\<close> reaches on the branch where the opened
  page is not the sign-in page: after the banner and the credential check, after
  \<open>sync_playwright\<close> has started, after the browser, the context and the page exist, after
  the sign-in address has been opened, after \<open>verify_login\<close> and after \<open>keepalive\<close>.
\<close>

definition after_banner :: "nat state" where
  "after_banner = snd (validate_credentials (print_banner example_state))"

definition after_start :: "nat host \<Rightarrow> nat state" where
  "after_start H = snd (life H Start after_banner)"

definition after_launch :: "nat host \<Rightarrow> nat state" where
  "after_launch H = snd (start_browser H (after_start H))"

definition after_signin :: "nat host \<Rightarrow> nat state" where
  "after_signin H = snd (open_signin H (after_launch H))"

definition after_verify :: "nat host \<Rightarrow> nat state" where
  "after_verify H = snd (verify_login H (log ''Already logged in!'' SUCCESS (after_signin H)))"

definition after_keepalive :: "nat host \<Rightarrow> nat state" where
  "after_keepalive H = snd (keepalive H (after_verify H))"

section \<open>Auxiliary facts\<close>

lemmas prim_defs = emit_def print_def log_def sleep_def life_def act_def ask_visible_def
  ask_text_def ask_cookies_def dump_json_def seq_def url_def Let_def

lemmas eval_defs = quiet_host_def example_state_def console_url_def example_cookies_def
  lower_def lower_char_def str_of_nat.simps digit_def fmt_02d_def str_of_opt_def truthy_def
  cookie_domain_def last_n_def

text \<open>
  Rules for running the model on a concrete world: \<open>seq\<close> is unfolded only once its first
  argument has been evaluated, and the continuation is left alone until then.
\<close>

lemma seq_weak_cong: "m = m' \<Longrightarrow> seq m f = seq m' f"
  by simp

lemma seq_simps:
  "seq (Inl e, s) f = (Inl e, s)"
  "seq (Inr x, s) f = f x s"
  by (simp_all add: seq_def)

lemmas step_defs = emit_def print_def log_def sleep_def life_def act_def ask_visible_def
  ask_text_def ask_cookies_def dump_json_def url_def Let_def seq_simps

lemma file_events_simps [simp]:
  "file_events [] = []"
  "file_events (xs @ ys) = file_events xs @ file_events ys"
  "file_events (Opened p # es) = Opened p # file_events es"
  "file_events (Written p cs # es) = Written p cs # file_events es"
  "file_events (Print m # es) = file_events es"
  "file_events (AskText q # es) = file_events es"
  "file_events (AskCookies # es) = file_events es"
  by (simp_all add: file_events_def file_event_def)

subsection \<open>The loop of the redirect waiter\<close>

lemma wait_redirect_body_cases:
  "wait_redirect_body H i st = (r, st') \<Longrightarrow>
     (r = Inr (Some True) \<longleftrightarrow> redirect_ok (url H st))
   \<and> (r = Inr (Some False) \<longleftrightarrow> \<not> redirect_ok (url H st) \<and> i > 10 \<and> on_github_login (url H st))"
  by (auto simp: wait_redirect_body_def redirect_ok_def on_github_login_def Let_def seq_def
      split: if_splits prod.splits sum.splits)

lemma loop_stop:
  "\<not> i < n \<Longrightarrow> polled_urls H i n st = []"
  "\<not> i < n \<Longrightarrow> fst (wait_redirect_loop H i n st) = Inr False"
  by (simp_all add: wait_redirect_loop.simps polled_urls.simps)

lemma loop_return:
  assumes "i < n" and "wait_redirect_body H i st = (r, st1)" and "r \<noteq> Inr None"
  shows "polled_urls H i n st = [url H st]"
    and "fst (wait_redirect_loop H i n st) = map_sum id the r"
  using assms
  by (auto simp: wait_redirect_loop.simps[of H i] polled_urls.simps[of H i]
      split: sum.splits option.splits)

lemma loop_next:
  assumes "i < n" and "wait_redirect_body H i st = (Inr None, st1)"
  shows "polled_urls H i n st = url H st # polled_urls H (Suc i) n st1"
    and "wait_redirect_loop H i n st = wait_redirect_loop H (Suc i) n st1"
  using assms
  by (simp_all add: wait_redirect_loop.simps[of H i] polled_urls.simps[of H i])

lemma loop_props:
  "(fst (wait_redirect_loop H i n st) = Inr True \<longleftrightarrow> list_ex redirect_ok (polled_urls H i n st))
   \<and> length (polled_urls H i n st) \<le> n - i
   \<and> (fst (wait_redirect_loop H i n st) = Inr False \<longrightarrow>
        \<not> list_ex redirect_ok (polled_urls H i n st)
        \<and> (length (polled_urls H i n st) = n - i
           \<or> (polled_urls H i n st \<noteq> [] \<and> on_github_login (last (polled_urls H i n st))
              \<and> 11 < i + length (polled_urls H i n st))))
   \<and> (\<forall>k<length (polled_urls H i n st).
        10 < i + k \<and> on_github_login (polled_urls H i n st ! k)
          \<and> \<not> redirect_ok (polled_urls H i n st ! k) \<longrightarrow>
        fst (wait_redirect_loop H i n st) = Inr False \<and> length (polled_urls H i n st) = Suc k)"
proof (induction H i n st rule: wait_redirect_loop.induct)
  case (1 H i n st)
  show ?case
  proof (cases "i < n")
    case False
    then show ?thesis
      by (simp add: loop_stop)
  next
    case True
    obtain r st1 where b: "wait_redirect_body H i st = (r, st1)"
      by (cases "wait_redirect_body H i st")
    note bc = wait_redirect_body_cases[OF b]
    show ?thesis
    proof (cases "r = Inr None")
      case False
      from loop_return[OF True b False] bc False True show ?thesis
        by (cases r) (auto simp: less_Suc_eq)
    next
      case go: True
      note ih = "1.IH"[OF True b[symmetric] go refl]
      note nx = loop_next[OF True b[unfolded go]]
      have nok: "\<not> redirect_ok (url H st)"
        and nstuck: "\<not> (10 < i \<and> on_github_login (url H st))"
        using bc go by auto
      show ?thesis
        unfolding nx
      proof (intro conjI)
        show "(fst (wait_redirect_loop H (Suc i) n st1) = Inr True) =
              list_ex redirect_ok (url H st # polled_urls H (Suc i) n st1)"
          using ih nok by simp
        have "length (polled_urls H (Suc i) n st1) \<le> n - Suc i"
          using ih by blast
        then show "length (url H st # polled_urls H (Suc i) n st1) \<le> n - i"
          using True by simp
      next
        show "fst (wait_redirect_loop H (Suc i) n st1) = Inr False \<longrightarrow>
           \<not> list_ex redirect_ok (url H st # polled_urls H (Suc i) n st1)
           \<and> (length (url H st # polled_urls H (Suc i) n st1) = n - i
              \<or> (url H st # polled_urls H (Suc i) n st1 \<noteq> []
                  \<and> on_github_login (last (url H st # polled_urls H (Suc i) n st1))
                  \<and> 11 < i + length (url H st # polled_urls H (Suc i) n st1)))"
        proof
          assume f: "fst (wait_redirect_loop H (Suc i) n st1) = Inr False"
          from ih f have a: "\<not> list_ex redirect_ok (polled_urls H (Suc i) n st1)"
            and b: "length (polled_urls H (Suc i) n st1) = n - Suc i
               \<or> (polled_urls H (Suc i) n st1 \<noteq> [] \<and> on_github_login (last (polled_urls H (Suc i) n st1))
                  \<and> 11 < Suc i + length (polled_urls H (Suc i) n st1))"
            by blast+
          from b True have "length (url H st # polled_urls H (Suc i) n st1) = n - i
              \<or> (on_github_login (last (url H st # polled_urls H (Suc i) n st1))
                  \<and> 11 < i + length (url H st # polled_urls H (Suc i) n st1))"
            by (elim disjE) auto
          with a nok show "\<not> list_ex redirect_ok (url H st # polled_urls H (Suc i) n st1)
           \<and> (length (url H st # polled_urls H (Suc i) n st1) = n - i
              \<or> (url H st # polled_urls H (Suc i) n st1 \<noteq> []
                  \<and> on_github_login (last (url H st # polled_urls H (Suc i) n st1))
                  \<and> 11 < i + length (url H st # polled_urls H (Suc i) n st1)))" by simp
        qed
      next
        show "\<forall>k<length (url H st # polled_urls H (Suc i) n st1).
            10 < i + k \<and> on_github_login ((url H st # polled_urls H (Suc i) n st1) ! k)
              \<and> \<not> redirect_ok ((url H st # polled_urls H (Suc i) n st1) ! k) \<longrightarrow>
            fst (wait_redirect_loop H (Suc i) n st1) = Inr False
              \<and> length (url H st # polled_urls H (Suc i) n st1) = Suc k"
        proof (intro allI impI)
          fix k
          assume k: "k < length (url H st # polled_urls H (Suc i) n st1)"
            and h: "10 < i + k \<and> on_github_login ((url H st # polled_urls H (Suc i) n st1) ! k)
                    \<and> \<not> redirect_ok ((url H st # polled_urls H (Suc i) n st1) ! k)"
          show "fst (wait_redirect_loop H (Suc i) n st1) = Inr False
              \<and> length (url H st # polled_urls H (Suc i) n st1) = Suc k"
          proof (cases k)
            case 0
            with h nstuck show ?thesis by simp
          next
            case (Suc j)
            with k h ih show ?thesis by simp
          qed
        qed
      qed
    qed
  qed
qed

subsection \<open>The error-banner check\<close>

lemma banner_probe_mono: "banner_probe rest e \<Longrightarrow> banner_probe (s # rest) e"
  by (auto simp: banner_probe_def split: event.splits text_query.splits)

lemma first_error_text_trace:
  "\<exists>evs. trace (snd (first_error_text H sels st)) = trace st @ evs \<and> list_all (banner_probe sels) evs"
proof (induction sels arbitrary: st)
  case Nil
  show ?case by simp
next
  case (Cons s rest)
  have mono: "\<And>evs. list_all (banner_probe rest) evs \<Longrightarrow> list_all (banner_probe (s # rest)) evs"
    by (simp add: list_all_iff banner_probe_mono)
  obtain v st1 where v: "ask_visible H s st = (v, st1)" by (cases "ask_visible H s st")
  then have t1: "trace st1 = trace st @ [AskVisible s]"
    by (auto simp: ask_visible_def emit_def split: prod.splits)
  obtain x st2 where x: "ask_text H (InnerText s) st1 = (x, st2)" by (cases "ask_text H (InnerText s) st1")
  then have t2: "trace st2 = trace st1 @ [AskText (InnerText s)]"
    by (auto simp: ask_text_def emit_def split: prod.splits)
  from Cons.IH[of st1] obtain e1 where e1: "trace (snd (first_error_text H rest st1)) = trace st1 @ e1"
      "list_all (banner_probe rest) e1" by blast
  from Cons.IH[of st2] obtain e2 where e2: "trace (snd (first_error_text H rest st2)) = trace st2 @ e2"
      "list_all (banner_probe rest) e2" by blast
  have p1: "banner_probe (s # rest) (AskVisible s)"
    and p2: "banner_probe (s # rest) (AskText (InnerText s))"
    by (simp_all add: banner_probe_def)
  consider (skip) "first_error_text H (s # rest) st = first_error_text H rest st1"
    | (fail) "first_error_text H (s # rest) st = first_error_text H rest st2"
    | (hit) t where "first_error_text H (s # rest) st = (Some t, st2)"
  proof (cases v)
    case (Inl e)
    with v skip show ?thesis by simp
  next
    case (Inr b)
    show ?thesis
    proof (cases b)
      case False
      with Inr v skip show ?thesis by simp
    next
      case True
      with Inr v x fail hit show ?thesis by (cases x) simp_all
    qed
  qed
  then show ?case
  proof cases
    case skip
    with e1 t1 mono[OF e1(2)] p1 show ?thesis by simp
  next
    case fail
    with e2 t1 t2 mono[OF e2(2)] p1 p2 show ?thesis by simp
  next
    case hit
    with t1 t2 p1 p2 show ?thesis by simp
  qed
qed

subsection \<open>The flag \<open>debug\<close> is carried along and never read\<close>

text \<open>
  Every operation commutes with setting the field \<open>debug\<close>. The rules below move such an
  update from the argument of an operation to its result.
\<close>

lemma debug_float [simp]:
  "world_update fw (debug_update g st) = debug_update g (world_update fw st)"
  "trace_update ft (debug_update g st) = debug_update g (trace_update ft st)"
  "username_update fu (debug_update g st) = debug_update g (username_update fu st)"
  "token_update fk (debug_update g st) = debug_update g (token_update fk st)"
  "screenshot_count_update fc (debug_update g st) = debug_update g (screenshot_count_update fc st)"
  "screenshots_update fs (debug_update g st) = debug_update g (screenshots_update fs st)"
  "telegram_update fg (debug_update g st) = debug_update g (telegram_update fg st)"
  "logs_update fl (debug_update g st) = debug_update g (logs_update fl st)"
  by (cases st; simp)+

lemma pull_seq:
  "seq (apsnd g m) k = seq_then g m (\<lambda>x s. k x (g s))"
  "seq_then g m (\<lambda>x s. apsnd g (k' x s)) = apsnd g (seq m k')"
  by (simp_all add: seq_def seq_then_def split: prod.splits sum.splits)

lemma pull_prod:
  "(case apsnd g p of (r, s) \<Rightarrow> c r s) = (case p of (r, s) \<Rightarrow> c r (g s))"
  "(case p of (r, s) \<Rightarrow> apsnd g (c' r s)) = apsnd g (case p of (r, s) \<Rightarrow> c' r s)"
  "fst (apsnd g p) = fst p"
  "snd (apsnd g p) = g (snd p)"
  by (cases p; simp)+

lemma pull_if: "(if b then apsnd g t else apsnd g e) = apsnd g (if b then t else e)"
  by simp

lemma pull_sum:
  "(case x of Inl l \<Rightarrow> apsnd g (fl l) | Inr r \<Rightarrow> apsnd g (fr r))
     = apsnd g (case x of Inl l \<Rightarrow> fl l | Inr r \<Rightarrow> fr r)"
  by (cases x) simp_all

lemma pull_option:
  "(case y of None \<Rightarrow> apsnd g n | Some v \<Rightarrow> apsnd g (fs v))
     = apsnd g (case y of None \<Rightarrow> n | Some v \<Rightarrow> fs v)"
  by (cases y) simp_all

lemma pull_bool:
  "(case b of True \<Rightarrow> apsnd g t | False \<Rightarrow> apsnd g e)
     = apsnd g (case b of True \<Rightarrow> t | False \<Rightarrow> e)"
  by (cases b) simp_all

lemmas pull_apsnd = pull_seq pull_prod pull_if pull_sum pull_option pull_bool

lemma pair_debug: "(r, debug_update (\<lambda>_. d) s) = apsnd (debug_update (\<lambda>_. d)) (r, s)"
  by simp

lemmas pull = pull_apsnd pair_debug

lemma prim_debug [simp]:
  "emit e (st\<lparr>debug := d\<rparr>) = (emit e st)\<lparr>debug := d\<rparr>"
  "print s (st\<lparr>debug := d\<rparr>) = (print s st)\<lparr>debug := d\<rparr>"
  "log m l (st\<lparr>debug := d\<rparr>) = (log m l st)\<lparr>debug := d\<rparr>"
  "sleep H n (st\<lparr>debug := d\<rparr>) = (sleep H n st)\<lparr>debug := d\<rparr>"
  "url H (st\<lparr>debug := d\<rparr>) = url H st"
  by (simp_all add: prim_defs)

lemma call_debug [simp]:
  "act H a (st\<lparr>debug := d\<rparr>) = apsnd (debug_update (\<lambda>_. d)) (act H a st)"
  "life H c (st\<lparr>debug := d\<rparr>) = apsnd (debug_update (\<lambda>_. d)) (life H c st)"
  "ask_visible H sel (st\<lparr>debug := d\<rparr>) = apsnd (debug_update (\<lambda>_. d)) (ask_visible H sel st)"
  "ask_text H q (st\<lparr>debug := d\<rparr>) = apsnd (debug_update (\<lambda>_. d)) (ask_text H q st)"
  "ask_cookies H (st\<lparr>debug := d\<rparr>) = apsnd (debug_update (\<lambda>_. d)) (ask_cookies H st)"
  "dump_json H p cs (st\<lparr>debug := d\<rparr>) = apsnd (debug_update (\<lambda>_. d)) (dump_json H p cs st)"
  by (simp_all add: prim_defs split: prod.splits option.splits)

lemma state_only_debug [simp]:
  "username (st\<lparr>debug := d\<rparr>) = username st"
  by simp

lemma screenshot_debug [simp]:
  "screenshot H name (st\<lparr>debug := d\<rparr>) = apsnd (debug_update (\<lambda>_. d)) (screenshot H name st)"
  by (simp add: screenshot_def Let_def pull del: apsnd_conv cong: sum.case_cong)

lemma telegram_debug [simp]:
  "send_message H m (st\<lparr>debug := d\<rparr>) = apsnd (debug_update (\<lambda>_. d)) (send_message H m st)"
  "send_photo H p c (st\<lparr>debug := d\<rparr>) = apsnd (debug_update (\<lambda>_. d)) (send_photo H p c st)"
  by (simp_all add: send_message_def send_photo_def post_def prim_defs
      split: prod.splits sum.splits option.splits)

lemma validate_credentials_debug [simp]:
  "validate_credentials (st\<lparr>debug := d\<rparr>) = apsnd (debug_update (\<lambda>_. d)) (validate_credentials st)"
  by (simp add: validate_credentials_def)

lemma find_and_click_debug [simp]:
  "find_and_click H sels desc (st\<lparr>debug := d\<rparr>) =
     apsnd (debug_update (\<lambda>_. d)) (find_and_click H sels desc st)"
  by (induction sels arbitrary: st)
     (simp_all add: pull del: apsnd_conv cong: sum.case_cong bool.case_cong prod.case_cong)

lemma first_error_text_debug [simp]:
  "first_error_text H sels (st\<lparr>debug := d\<rparr>) =
     apsnd (debug_update (\<lambda>_. d)) (first_error_text H sels st)"
  by (induction sels arbitrary: st)
     (simp_all add: pull del: apsnd_conv cong: sum.case_cong bool.case_cong prod.case_cong)

lemma checks_debug [simp]:
  "check_github_error H (st\<lparr>debug := d\<rparr>) = apsnd (debug_update (\<lambda>_. d)) (check_github_error H st)"
  "check_device_verification H (st\<lparr>debug := d\<rparr>) =
     apsnd (debug_update (\<lambda>_. d)) (check_device_verification H st)"
  "check_2fa H (st\<lparr>debug := d\<rparr>) = apsnd (debug_update (\<lambda>_. d)) (check_2fa H st)"
  by (simp_all add: check_github_error_def check_device_verification_def check_2fa_def
      pull del: apsnd_conv cong: sum.case_cong bool.case_cong prod.case_cong)

lemma login_github_submit_debug [simp]:
  "login_github_submit H (st\<lparr>debug := d\<rparr>) = apsnd (debug_update (\<lambda>_. d)) (login_github_submit H st)"
  by (simp add: login_github_submit_def pull del: apsnd_conv
      cong: sum.case_cong bool.case_cong prod.case_cong)

lemma login_github_checks_debug [simp]:
  "login_github_checks H u (st\<lparr>debug := d\<rparr>) = apsnd (debug_update (\<lambda>_. d)) (login_github_checks H u st)"
  by (simp add: login_github_checks_def pull del: apsnd_conv
      cong: sum.case_cong bool.case_cong prod.case_cong if_cong)

lemma login_github_debug [simp]:
  "login_github H (st\<lparr>debug := d\<rparr>) = apsnd (debug_update (\<lambda>_. d)) (login_github H st)"
  by (simp add: login_github_def pull del: apsnd_conv
      cong: sum.case_cong bool.case_cong prod.case_cong option.case_cong)

lemmas case_congs = sum.case_cong bool.case_cong prod.case_cong option.case_cong if_cong

lemma if_debug [simp]:
  "(if b then debug_update g x else debug_update g y) = debug_update g (if b then x else y)"
  by simp

lemma handle_oauth_debug [simp]:
  "handle_oauth H (st\<lparr>debug := d\<rparr>) = apsnd (debug_update (\<lambda>_. d)) (handle_oauth H st)"
  by (simp add: handle_oauth_def pull del: apsnd_conv cong: case_congs)

lemma wait_redirect_body_debug [simp]:
  "wait_redirect_body H i (st\<lparr>debug := d\<rparr>) = apsnd (debug_update (\<lambda>_. d)) (wait_redirect_body H i st)"
  by (simp add: wait_redirect_body_def Let_def pull del: apsnd_conv cong: case_congs)

lemma wait_redirect_loop_debug [simp]:
  "wait_redirect_loop H i n (st\<lparr>debug := d\<rparr>) = apsnd (debug_update (\<lambda>_. d)) (wait_redirect_loop H i n st)"
proof (induction H i n st rule: wait_redirect_loop.induct)
  case (1 H i n st)
  obtain r st1 where b: "wait_redirect_body H i st = (r, st1)"
    by (cases "wait_redirect_body H i st")
  show ?case
  proof (cases "i < n \<and> r = Inr None")
    case True
    with b have b': "(Inr None, st1) = wait_redirect_body H i st" by simp
    from True have lt: "i < n" by simp
    note ih = "1.IH"[OF lt b' refl refl]
    from True ih b show ?thesis
      by (subst (1 2) wait_redirect_loop.simps) simp
  next
    case False
    with b show ?thesis
      by (subst (1 2) wait_redirect_loop.simps)
         (auto split: prod.splits sum.splits option.splits)
  qed
qed

lemma wait_redirect_debug [simp]:
  "wait_redirect H n (st\<lparr>debug := d\<rparr>) = apsnd (debug_update (\<lambda>_. d)) (wait_redirect H n st)"
  by (simp add: wait_redirect_def wait_redirect_start_def)

lemma verify_login_debug [simp]:
  "verify_login H (st\<lparr>debug := d\<rparr>) = apsnd (debug_update (\<lambda>_. d)) (verify_login H st)"
  by (simp add: verify_login_def Let_def pull del: apsnd_conv cong: case_congs)

lemma keepalive_visits_debug [simp]:
  "keepalive_visits H ps (st\<lparr>debug := d\<rparr>) = apsnd (debug_update (\<lambda>_. d)) (keepalive_visits H ps st)"
proof (induction ps arbitrary: st)
  case Nil
  show ?case by simp
next
  case (Cons p ps)
  obtain u name where p: "p = (u, name)" by (cases p)
  show ?case
    unfolding p using Cons.IH
    by (simp add: pull del: apsnd_conv cong: case_congs)
qed

lemma keepalive_debug [simp]:
  "keepalive H (st\<lparr>debug := d\<rparr>) = apsnd (debug_update (\<lambda>_. d)) (keepalive H st)"
  by (simp add: keepalive_def pull del: apsnd_conv cong: case_congs)

lemma send_debug_photos_debug [simp]:
  "send_debug_photos H shots (st\<lparr>debug := d\<rparr>) = (send_debug_photos H shots st)\<lparr>debug := d\<rparr>"
  by (induction shots arbitrary: st) (simp_all add: pull_prod)

lemma send_notification_debug [simp]:
  "send_notification H ok msg (st\<lparr>debug := d\<rparr>) = (send_notification H ok msg st)\<lparr>debug := d\<rparr>"
  by (simp add: send_notification_def Let_def pull_prod)

lemma open_signin_debug [simp]:
  "open_signin H (st\<lparr>debug := d\<rparr>) = apsnd (debug_update (\<lambda>_. d)) (open_signin H st)"
  by (simp add: open_signin_def pull del: apsnd_conv cong: case_congs)

lemma already_logged_in_debug [simp]:
  "already_logged_in H (st\<lparr>debug := d\<rparr>) = apsnd (debug_update (\<lambda>_. d)) (already_logged_in H st)"
  by (simp add: already_logged_in_def pull del: apsnd_conv cong: case_congs)

lemma redirect_and_verify_debug [simp]:
  "redirect_and_verify H (st\<lparr>debug := d\<rparr>) = apsnd (debug_update (\<lambda>_. d)) (redirect_and_verify H st)"
  by (simp add: redirect_and_verify_def pull del: apsnd_conv cong: case_congs)

lemma login_flow_debug [simp]:
  "login_flow H (st\<lparr>debug := d\<rparr>) = apsnd (debug_update (\<lambda>_. d)) (login_flow H st)"
  by (simp add: login_flow_def Let_def pull del: apsnd_conv cong: case_congs)

lemma session_debug [simp]:
  "session H (st\<lparr>debug := d\<rparr>) = apsnd (debug_update (\<lambda>_. d)) (session H st)"
  by (simp add: session_def pull del: apsnd_conv cong: case_congs)

lemma handler_debug [simp]:
  "handler H e (st\<lparr>debug := d\<rparr>) = apsnd (debug_update (\<lambda>_. d)) (handler H e st)"
  by (simp add: handler_def pull del: apsnd_conv cong: case_congs)

lemma start_browser_debug [simp]:
  "start_browser H (st\<lparr>debug := d\<rparr>) = apsnd (debug_update (\<lambda>_. d)) (start_browser H st)"
  by (simp add: start_browser_def pull del: apsnd_conv cong: case_congs)

lemma try_session_debug [simp]:
  "try_session H (st\<lparr>debug := d\<rparr>) = apsnd (debug_update (\<lambda>_. d)) (try_session H st)"
  by (simp add: try_session_def pull del: apsnd_conv cong: case_congs)

lemma with_playwright_debug [simp]:
  "with_playwright H (st\<lparr>debug := d\<rparr>) = apsnd (debug_update (\<lambda>_. d)) (with_playwright H st)"
  by (simp add: with_playwright_def pull del: apsnd_conv cong: case_congs flow.case_cong)

lemma run_debug:
  "run H (st\<lparr>debug := d\<rparr>) = apsnd (debug_update (\<lambda>_. d)) (run H st)"
  by (simp add: run_def print_banner_def pull del: apsnd_conv cong: case_congs)

subsection \<open>The notifier makes no browser call\<close>

lemma init_debug_mode:
  "init (environ(''DEBUG_MODE'' := v)) w =
     (init environ w)\<lparr>debug := (lower (case v of None \<Rightarrow> ''true'' | Some x \<Rightarrow> x) = ''true'')\<rparr>"
  by (simp add: init_def telegram_init_def)

lemma post_browser:
  "filter browser_event (trace (snd (post H req f st))) = filter browser_event (trace st)"
  by (simp add: post_def prim_defs browser_event_def split: prod.splits sum.splits)

lemma send_message_browser:
  "filter browser_event (trace (snd (send_message H m st))) = filter browser_event (trace st)"
  by (simp add: send_message_def post_browser)

lemma send_photo_browser:
  "filter browser_event (trace (snd (send_photo H p c st))) = filter browser_event (trace st)"
  by (simp add: send_photo_def post_browser prim_defs browser_event_def split: option.splits)

lemma send_debug_photos_browser:
  "filter browser_event (trace (send_debug_photos H shots st)) = filter browser_event (trace st)"
  by (induction shots arbitrary: st) (simp_all add: send_photo_browser)

lemma send_notification_browser:
  "filter browser_event (trace (send_notification H ok msg st)) = filter browser_event (trace st)"
  by (simp add: send_notification_def Let_def send_debug_photos_browser send_photo_browser
      send_message_browser)

lemma validate_credentials_browser:
  "filter browser_event (trace (snd (validate_credentials st))) = filter browser_event (trace st)"
  by (simp add: validate_credentials_def prim_defs browser_event_def)

lemma validate_credentials_missing:
  "\<not> truthy (username st) \<or> \<not> truthy (token st) \<Longrightarrow> \<not> fst (validate_credentials st)"
  by (auto simp: validate_credentials_def)

subsection \<open>The shape of a run\<close>

lemma pair_fst_snd: "fst p = a \<Longrightarrow> snd p = b \<Longrightarrow> p = (a, b)"
  by auto

lemma life_succeeds:
  "lifecycle_do H c (world st) = (None, world st) \<Longrightarrow> life H c st = (Inr (), emit (Life c) st)"
  by (simp add: life_def)

lemma run_valid:
  "validate_credentials (print_banner st) = (True, t1) \<Longrightarrow> run H st = with_playwright H t1"
  by (simp add: run_def)

lemma with_playwright_session:
  assumes "life H Start t1 = (Inr (), p1)"
    and "start_browser H p1 = (Inr (), p2)"
    and "session H p2 = (Inr f, u)"
    and "life H Close u = (Inr (), c1)"
    and "life H Stop c1 = (Inr (), c2)"
  shows "with_playwright H t1 =
           (case f of Completed \<Rightarrow> Returned | Exited n \<Rightarrow> SysExit n, c2)"
  using assms by (simp add: with_playwright_def try_session_def seq_simps)

lemma session_already_logged_in:
  "open_signin H st = (Inr (), t2) \<Longrightarrow> \<not> str_in ''signin'' (lower (url H t2)) \<Longrightarrow>
   session H st = already_logged_in H t2"
  by (simp add: session_def seq_simps)

lemma already_logged_in_verified:
  "verify_login H (log ''Already logged in!'' SUCCESS st) = (Inr True, s1) \<Longrightarrow>
   keepalive H s1 = (Inr b, s2) \<Longrightarrow>
   already_logged_in H st =
     (Inr Completed,
      print (nl @ ''Success: already logged in!'' @ nl) (send_notification H True [] s2))"
  by (simp add: already_logged_in_def seq_simps)

lemma already_logged_in_rejected:
  "verify_login H (log ''Already logged in!'' SUCCESS st) = (Inr False, s1) \<Longrightarrow>
   already_logged_in H st =
     (Inr (Exited 1), send_notification H False ''Verifying the login state failed'' s1)"
  by (simp add: already_logged_in_def seq_simps)


subsection \<open>Steps outside the login form\<close>

lemma marked_simps [simp]:
  "marked (st\<lparr>world := w\<rparr>) = marked st"
  "marked (st\<lparr>screenshot_count := n\<rparr>) = marked st"
  "marked (st\<lparr>screenshots := ss\<rparr>) = marked st"
  "marked (st\<lparr>logs := ls\<rparr>) = marked st"
  "plain_event e \<Longrightarrow> marked (emit e st) = marked st"
  by (simp_all add: marked_def emit_def)

lemma plain_event_simps [simp]:
  "plain_event (Print m)" "plain_event (PrintExc m)" "plain_event (Sleep n)" "plain_event (Life c)"
  "plain_event (Act (Goto u))" "plain_event (Act WaitLoad)" "plain_event (Act (Screenshot f))"
  "plain_event (AskText Title)" "plain_event AskCookies" "plain_event (Opened p)"
  "plain_event (Written p cs)"
  by (simp_all add: plain_event_def)

lemma prim_marked [simp]:
  "marked (print m st) = marked st"
  "marked (log m l st) = marked st"
  "marked (sleep H n st) = marked st"
  "marked (snd (life H c st)) = marked st"
  "marked (snd (act H (Goto u) st)) = marked st"
  "marked (snd (act H WaitLoad st)) = marked st"
  "marked (snd (act H (Screenshot f) st)) = marked st"
  "marked (snd (ask_text H Title st)) = marked st"
  "marked (snd (ask_cookies H st)) = marked st"
  "marked (snd (dump_json H p cs st)) = marked st"
  by (simp_all add: print_def log_def sleep_def life_def act_def ask_text_def ask_cookies_def
      dump_json_def Let_def split: prod.splits option.splits)

text \<open>Rules for a projection \<open>V\<close> of the state that the parts of a step leave as it is.\<close>

lemma seq_keeps:
  assumes "V (snd m) = V st"
    and "\<And>x s. V s = V st \<Longrightarrow> V (snd (k x s)) = V st"
  shows "V (snd (seq m k)) = V st"
proof (cases m)
  case (Pair r s)
  with assms show ?thesis by (cases r) (simp_all add: seq_def)
qed

lemma if_keeps:
  "(c \<Longrightarrow> V (snd a) = V st) \<Longrightarrow> (\<not> c \<Longrightarrow> V (snd b) = V st) \<Longrightarrow>
   V (snd (if c then a else b)) = V st"
  by simp

lemma prod_keeps:
  assumes "V (snd p) = V st"
    and "\<And>x s. V s = V st \<Longrightarrow> V (snd (k x s)) = V st"
  shows "V (snd (case p of (x, s) \<Rightarrow> k x s)) = V st"
  using assms by (cases p) simp

lemma pair_keeps: "V s = V st \<Longrightarrow> V (snd (r, s)) = V st"
  by simp

lemmas marked_rules = seq_keeps[where V = marked] if_keeps[where V = marked]
  prod_keeps[where V = marked] pair_keeps[where V = marked]

lemma screenshot_marked [simp]: "marked (snd (screenshot H name st)) = marked st"
  unfolding screenshot_def Let_def by (intro marked_rules) simp_all

lemma validate_credentials_marked [simp]: "marked (snd (validate_credentials st)) = marked st"
  by (simp add: validate_credentials_def)

lemma print_banner_marked [simp]: "marked (print_banner st) = marked st"
  by (simp add: print_banner_def)

lemma start_browser_marked [simp]: "marked (snd (start_browser H st)) = marked st"
  unfolding start_browser_def by (intro marked_rules) simp_all

lemma open_signin_marked [simp]: "marked (snd (open_signin H st)) = marked st"
  unfolding open_signin_def by (intro marked_rules) simp_all

lemma verify_login_marked [simp]: "marked (snd (verify_login H st)) = marked st"
  unfolding verify_login_def Let_def by (intro marked_rules) simp_all

lemma keepalive_visits_marked [simp]: "marked (snd (keepalive_visits H pages st)) = marked st"
proof (induction pages arbitrary: st)
  case Nil
  show ?case by simp
next
  case (Cons p pages)
  obtain u name where p: "p = (u, name)" by (cases p)
  have "marked (snd (seq (act H (Goto u) st) (\<lambda>_ s. act H WaitLoad s))) = marked st"
    by (intro marked_rules) simp_all
  then show ?case
    by (cases "seq (act H (Goto u) st) (\<lambda>_ s. act H WaitLoad s)")
      (simp add: p Cons.IH split: sum.splits)
qed

lemma keepalive_marked [simp]: "marked (snd (keepalive H st)) = marked st"
proof -
  have "marked (snd (keepalive_visits H keepalive_pages
      (log ''Visiting pages to keep the account active...'' STEP st))) = marked st"
    by simp
  then show ?thesis
    unfolding keepalive_def
    by (cases "keepalive_visits H keepalive_pages
      (log ''Visiting pages to keep the account active...'' STEP st)")
      (auto intro!: marked_rules split: bool.splits)
qed

lemma steps_simps [simp]:
  "steps (st\<lparr>world := w\<rparr>) = steps st"
  "steps (print m st) = steps st"
  "steps (emit (Post r) st) = steps st"
  "steps (emit (PrintExc m) st) = steps st"
  by (simp_all add: steps_def print_def emit_def login_step_event_def)

lemma step_not_plain: "login_step_event e \<Longrightarrow> \<not> plain_event e"
  by (cases e) (simp_all add: login_step_event_def plain_event_def split: action.splits text_query.splits)

lemma marked_steps: "marked s = marked st \<Longrightarrow> steps s = steps st"
proof -
  have "filter login_step_event es = filter login_step_event (filter (\<lambda>e. \<not> plain_event e) es)"
    for es
    by (induction es) (auto dest: step_not_plain)
  then show "marked s = marked st \<Longrightarrow> steps s = steps st"
    by (metis steps_def marked_def fst_conv)
qed

lemma plain_steps [simp]:
  "steps (log m l st) = steps st"
  "steps (snd (life H c st)) = steps st"
  "steps (snd (screenshot H name st)) = steps st"
  "steps (snd (validate_credentials st)) = steps st"
  "steps (print_banner st) = steps st"
  "steps (snd (start_browser H st)) = steps st"
  "steps (snd (open_signin H st)) = steps st"
  "steps (snd (verify_login H st)) = steps st"
  "steps (snd (keepalive H st)) = steps st"
  by (rule marked_steps, simp)+

lemma post_steps [simp]: "steps (snd (post H req failure st)) = steps st"
  by (simp add: post_def split: prod.splits sum.splits)

lemma send_message_steps [simp]: "steps (snd (send_message H m st)) = steps st"
  by (simp add: send_message_def)

lemma send_photo_steps [simp]: "steps (snd (send_photo H p c st)) = steps st"
  by (simp add: send_photo_def split: option.splits)

lemma send_debug_photos_steps [simp]: "steps (send_debug_photos H shots st) = steps st"
  by (induction shots arbitrary: st) simp_all

lemma send_notification_steps [simp]: "steps (send_notification H ok msg st) = steps st"
  by (simp add: send_notification_def Let_def)

lemma sum_keeps:
  "(\<And>e. V (snd (f e)) = V st) \<Longrightarrow> (\<And>x. V (snd (g x)) = V st) \<Longrightarrow>
   V (snd (case r of Inl e \<Rightarrow> f e | Inr x \<Rightarrow> g x)) = V st"
  by (cases r) simp_all

lemmas steps_rules = seq_keeps[where V = steps] if_keeps[where V = steps]
  prod_keeps[where V = steps] pair_keeps[where V = steps]

lemma already_logged_in_steps [simp]: "steps (snd (already_logged_in H st)) = steps st"
  unfolding already_logged_in_def by (intro steps_rules) simp_all

lemma handler_steps [simp]: "steps (snd (handler H e st)) = steps st"
  unfolding handler_def by (intro steps_rules) simp_all

lemma try_session_steps:
  assumes "steps (snd (session H st)) = steps st"
  shows "steps (snd (try_session H st)) = steps st"
  unfolding try_session_def
  by (intro steps_rules sum_keeps[where V = steps] assms) simp_all

lemma with_playwright_steps:
  assumes "life H Start t1 = (Inr (), p1)"
    and "start_browser H p1 = (Inr (), p2)"
    and "steps (snd (session H p2)) = steps p2"
  shows "steps (snd (with_playwright H t1)) = steps t1"
proof -
  have a: "steps p1 = steps t1"
    using plain_steps(2)[of H Start t1] assms(1) by simp
  have b: "steps p2 = steps p1"
    using plain_steps(6)[of H p1] assms(2) by simp
  have "steps (snd (try_session H p2)) = steps t1"
    by (simp add: try_session_steps[OF assms(3)] a b)
  then have "steps (snd (case try_session H p2 of
      (r, st3) \<Rightarrow>
        (case life H Stop st3 of
           (Inl e, st4) \<Rightarrow> (Uncaught e, st4)
         | (Inr _, st4) \<Rightarrow>
             (case r of Inl e \<Rightarrow> Uncaught e | Inr Completed \<Rightarrow> Returned | Inr (Exited n) \<Rightarrow> SysExit n,
              st4)))) = steps t1"
    by (intro steps_rules sum_keeps[where V = steps]) simp_all
  then show ?thesis
    by (simp add: with_playwright_def assms(1,2) seq_simps)
qed

subsection \<open>Evaluations in the example worlds\<close>

lemma redirecting_polls:
  "polled_urls redirecting_host 0 45 (wait_redirect_start 45 example_state) =
     [''https://github.com/sessions/x'', ''https://github.com/sessions/x'', console_url]"
  by (simp add: wait_redirect_start_def polled_urls.simps wait_redirect_body_def
        redirecting_host_def step_defs eval_defs
      cong: seq_weak_cong let_weak_cong prod.case_cong_weak)

lemma stuck_polls:
  "polled_urls stuck_host 0 45 (wait_redirect_start 45 example_state) =
     [''https://github.com/login'', ''https://github.com/login'', ''https://github.com/login'',
      ''https://github.com/login'', ''https://github.com/login'', ''https://github.com/login'',
      ''https://github.com/login'', ''https://github.com/login'', ''https://github.com/login'',
      ''https://github.com/login'', ''https://github.com/login'', ''https://github.com/login'']"
  by (simp add: wait_redirect_start_def polled_urls.simps wait_redirect_body_def
        stuck_host_def step_defs eval_defs
      cong: seq_weak_cong let_weak_cong prod.case_cong_weak)

lemma stuck_result: "fst (wait_redirect stuck_host 45 example_state) = Inr False"
  by (simp add: wait_redirect_def wait_redirect_start_def wait_redirect_loop.simps
        wait_redirect_body_def stuck_host_def step_defs eval_defs
      cong: seq_weak_cong let_weak_cong prod.case_cong_weak)

lemma banner_submit:
  "fst (login_github_submit banner_host example_state) = Inr (Some ''https://github.com/session'')"
  by (simp add: login_github_submit_def screenshot_def banner_host_def step_defs eval_defs
      cong: seq_weak_cong let_weak_cong prod.case_cong_weak)

lemma banner_check:
  "fst (check_github_error banner_host (snd (login_github_submit banner_host example_state)))
     = Some ''Incorrect username or password.''"
  by (simp add: check_github_error_def error_selectors_def login_github_submit_def screenshot_def
        banner_host_def step_defs eval_defs
      cong: seq_weak_cong let_weak_cong prod.case_cong_weak)

lemma console_checks_pass: "fst (verify_login console_host example_state) = Inr True"
  by (simp add: verify_login_def console_host_def step_defs eval_defs
      cong: seq_weak_cong let_weak_cong prod.case_cong_weak)

lemma full_disk_eval:
  "fst (verify_login full_disk_host example_state) = Inl ''No space left on device''"
  "file_events (trace (snd (verify_login full_disk_host example_state))) = [Opened ''cookies.json'']"
  by (simp_all add: verify_login_def full_disk_host_def console_host_def step_defs eval_defs
      cong: seq_weak_cong let_weak_cong prod.case_cong_weak)

subsection \<open>The run that finds itself already logged in\<close>

lemma expiring_host_simps:
  "page_url (expiring_host k) w = (if w \<le> k then console_url else SIGNIN_URL)"
  "lifecycle_do (expiring_host k) c w = (None, w)"
  "page_do (expiring_host k) a w = (None, case a of Goto u \<Rightarrow> Suc w | _ \<Rightarrow> w)"
  "is_visible (expiring_host k) sel w = (Inr False, w)"
  "page_text (expiring_host k) q w = (Inr ''Console'', w)"
  "context_cookies (expiring_host k) w = (Inr example_cookies, w)"
  "sleep_do (expiring_host k) n w = w"
  "strftime (expiring_host k) w = ''2024-01-01 00:00:00''"
  "path_exists (expiring_host k) p w = True"
  "open_rb (expiring_host k) p w = None"
  "http_post (expiring_host k) r w = (Inr 200, w)"
  "open_w (expiring_host k) p w = (None, w)"
  "json_dump (expiring_host k) p cs w = (None, w)"
  "close_w (expiring_host k) p w = (None, w)"
  by (simp_all add: expiring_host_def quiet_host_def)

lemma elsewhere_host_simps:
  "page_url elsewhere_host w = ''https://example.com/''"
  "lifecycle_do elsewhere_host c w = (None, w)"
  "page_do elsewhere_host a w = (None, w)"
  "is_visible elsewhere_host sel w = (Inr False, w)"
  "page_text elsewhere_host q w = (Inr ''Console'', w)"
  "context_cookies elsewhere_host w = (Inr [], w)"
  "sleep_do elsewhere_host n w = w + n"
  "strftime elsewhere_host w = ''2024-01-01 00:00:00''"
  "path_exists elsewhere_host p w = True"
  "open_rb elsewhere_host p w = None"
  "http_post elsewhere_host r w = (Inr 200, w)"
  "open_w elsewhere_host p w = (None, w)"
  "json_dump elsewhere_host p cs w = (None, w)"
  "close_w elsewhere_host p w = (None, w)"
  by (simp_all add: elsewhere_host_def quiet_host_def)

lemma crashed_host_simps:
  "page_url crashed_host w = ''about:blank''"
  "lifecycle_do crashed_host c w = (None, w)"
  "page_do crashed_host a w = (Some ''Target closed'', w)"
  "is_visible crashed_host sel w = (Inr False, w)"
  "page_text crashed_host q w = (Inr ''Console'', w)"
  "context_cookies crashed_host w = (Inr [], w)"
  "sleep_do crashed_host n w = w + n"
  "strftime crashed_host w = ''2024-01-01 00:00:00''"
  "path_exists crashed_host p w = True"
  "open_rb crashed_host p w = None"
  "http_post crashed_host r w = (Inr 200, w)"
  "open_w crashed_host p w = (None, w)"
  "json_dump crashed_host p cs w = (None, w)"
  "close_w crashed_host p w = (None, w)"
  by (simp_all add: crashed_host_def quiet_host_def)

lemmas host_defs = expiring_host_simps elsewhere_host_simps crashed_host_simps
  SIGNIN_URL_def CLAW_CLOUD_URL_def console_url_def example_cookies_def

lemmas str_defs = lower_def lower_char_def str_of_nat.simps digit_def fmt_02d_def str_of_opt_def
  truthy_def cookie_domain_def last_n_def

lemmas eval_congs = seq_weak_cong let_weak_cong prod.case_cong_weak

lemma after_banner:
  "validate_credentials (print_banner example_state) = (True, after_banner)"
  "world after_banner = 0" "screenshot_count after_banner = 0" "screenshots after_banner = []"
  "enabled (telegram after_banner)"
proof -
  show "validate_credentials (print_banner example_state) = (True, after_banner)"
    by (rule pair_fst_snd)
      (simp_all add: after_banner_def validate_credentials_def print_banner_def example_state_def
        step_defs str_defs cong: eval_congs)
qed (simp_all add: after_banner_def validate_credentials_def print_banner_def example_state_def
      step_defs str_defs cong: eval_congs)

text \<open>In the example worlds the life-cycle calls succeed and leave the world as it is.\<close>

lemma life_example:
  "life (expiring_host k) c st = (Inr (), emit (Life c) st)"
  "life elsewhere_host c st = (Inr (), emit (Life c) st)"
  "life crashed_host c st = (Inr (), emit (Life c) st)"
  by (rule life_succeeds, simp add: host_defs)+

lemma start_browser_example:
  "start_browser (expiring_host k) st =
     (Inr (), emit (Life NewPage) (emit (Life NewContext) (emit (Life Launch) st)))"
  "start_browser elsewhere_host st =
     (Inr (), emit (Life NewPage) (emit (Life NewContext) (emit (Life Launch) st)))"
  "start_browser crashed_host st =
     (Inr (), emit (Life NewPage) (emit (Life NewContext) (emit (Life Launch) st)))"
  by (simp_all add: start_browser_def life_example seq_simps)

lemma after_start:
  "life (expiring_host k) Start after_banner = (Inr (), after_start (expiring_host k))"
  "world (after_start (expiring_host k)) = 0"
  "screenshot_count (after_start (expiring_host k)) = 0"
  "screenshots (after_start (expiring_host k)) = []"
  by (simp_all add: after_start_def life_example emit_def after_banner)

lemma after_launch:
  "start_browser (expiring_host k) (after_start (expiring_host k)) =
     (Inr (), after_launch (expiring_host k))"
  "world (after_launch (expiring_host k)) = 0"
  "screenshot_count (after_launch (expiring_host k)) = 0"
  "screenshots (after_launch (expiring_host k)) = []"
  by (simp_all add: after_launch_def start_browser_example emit_def after_start)

lemma after_signin:
  "open_signin (expiring_host (Suc 0)) (after_launch (expiring_host (Suc 0))) =
     (Inr (), after_signin (expiring_host (Suc 0)))"
  "world (after_signin (expiring_host (Suc 0))) = 1"
proof -
  show "open_signin (expiring_host (Suc 0)) (after_launch (expiring_host (Suc 0))) =
     (Inr (), after_signin (expiring_host (Suc 0)))"
    by (rule pair_fst_snd)
      (simp_all add: after_signin_def open_signin_def screenshot_def after_launch host_defs
        step_defs str_defs cong: eval_congs)
qed (simp add: after_signin_def open_signin_def screenshot_def after_launch host_defs
      step_defs str_defs cong: eval_congs)


lemma after_verify:
  "verify_login (expiring_host (Suc 0)) (log ''Already logged in!'' SUCCESS (after_signin (expiring_host (Suc 0)))) =
     (Inr True, after_verify (expiring_host (Suc 0)))"
  "world (after_verify (expiring_host (Suc 0))) = 1"
proof -
  show "verify_login (expiring_host (Suc 0)) (log ''Already logged in!'' SUCCESS (after_signin (expiring_host (Suc 0)))) =
     (Inr True, after_verify (expiring_host (Suc 0)))"
    by (rule pair_fst_snd)
      (simp_all add: after_verify_def verify_login_def after_signin host_defs step_defs str_defs
        cong: eval_congs)
qed (simp add: after_verify_def verify_login_def after_signin host_defs step_defs str_defs
      cong: eval_congs)

lemma after_keepalive:
  "keepalive (expiring_host (Suc 0)) (after_verify (expiring_host (Suc 0))) =
     (Inr False, after_keepalive (expiring_host (Suc 0)))"
  by (rule pair_fst_snd)
    (simp_all add: after_keepalive_def keepalive_def keepalive_pages_def after_verify host_defs
      step_defs str_defs cong: eval_congs)

subsection \<open>Runs on a page that is not the sign-in page\<close>

lemma console_host_simps:
  "page_url console_host w = console_url"
  "lifecycle_do console_host c w = (None, w)"
  "page_do console_host a w = (None, w)"
  "is_visible console_host sel w = (Inr False, w)"
  "page_text console_host q w = (Inr ''Console'', w)"
  "context_cookies console_host w = (Inr example_cookies, w)"
  "sleep_do console_host n w = w + n"
  "strftime console_host w = ''2024-01-01 00:00:00''"
  "path_exists console_host p w = True"
  "open_rb console_host p w = None"
  "http_post console_host r w = (Inr 200, w)"
  "open_w console_host p w = (None, w)"
  "json_dump console_host p cs w = (None, w)"
  "close_w console_host p w = (None, w)"
  by (simp_all add: console_host_def quiet_host_def)

lemmas url_defs = SIGNIN_URL_def CLAW_CLOUD_URL_def console_url_def example_cookies_def

lemma example_trace: "trace example_state = []"
  by (simp add: example_state_def)

lemma life_console: "life console_host c st = (Inr (), emit (Life c) st)"
  by (rule life_succeeds, simp add: console_host_simps)

lemma console_launch:
  "life console_host Start after_banner = (Inr (), after_start console_host)"
  "start_browser console_host (after_start console_host) = (Inr (), after_launch console_host)"
  "world (after_launch console_host) = 0"
  "screenshot_count (after_launch console_host) = 0"
  by (simp_all add: after_start_def after_launch_def start_browser_def life_console seq_simps
      emit_def after_banner)

lemma console_signin:
  "open_signin console_host (after_launch console_host) = (Inr (), after_signin console_host)"
  "world (after_signin console_host) = 2"
  "screenshot_count (after_signin console_host) = 1"
proof -
  show "open_signin console_host (after_launch console_host) = (Inr (), after_signin console_host)"
    by (rule pair_fst_snd)
      (simp_all add: after_signin_def open_signin_def screenshot_def console_launch
        console_host_simps url_defs step_defs str_defs cong: eval_congs)
qed (simp_all add: after_signin_def open_signin_def screenshot_def console_launch
      console_host_simps url_defs step_defs str_defs cong: eval_congs)

lemma console_signin_url:
  "\<not> str_in ''signin'' (lower (url console_host (after_signin console_host)))"
  by (simp add: url_def console_host_simps url_defs str_defs)

lemma console_verify:
  "verify_login console_host (log ''Already logged in!'' SUCCESS (after_signin console_host)) =
     (Inr True, after_verify console_host)"
  "world (after_verify console_host) = 2"
  "screenshot_count (after_verify console_host) = 1"
proof -
  show "verify_login console_host (log ''Already logged in!'' SUCCESS (after_signin console_host)) =
     (Inr True, after_verify console_host)"
    by (rule pair_fst_snd)
      (simp_all add: after_verify_def verify_login_def console_signin console_host_simps url_defs
        step_defs str_defs cong: eval_congs)
qed (simp_all add: after_verify_def verify_login_def console_signin console_host_simps url_defs
      step_defs str_defs cong: eval_congs)

lemma console_keepalive:
  "keepalive console_host (after_verify console_host) = (Inr True, after_keepalive console_host)"
  by (rule pair_fst_snd)
    (simp_all add: after_keepalive_def keepalive_def keepalive_pages_def screenshot_def
      console_verify console_host_simps url_defs step_defs str_defs cong: eval_congs)

lemma elsewhere_launch:
  "life elsewhere_host Start after_banner = (Inr (), after_start elsewhere_host)"
  "start_browser elsewhere_host (after_start elsewhere_host) = (Inr (), after_launch elsewhere_host)"
  "world (after_launch elsewhere_host) = 0"
  "screenshot_count (after_launch elsewhere_host) = 0"
  by (simp_all add: after_start_def after_launch_def start_browser_example life_example
      emit_def after_banner)

lemma elsewhere_signin:
  "open_signin elsewhere_host (after_launch elsewhere_host) = (Inr (), after_signin elsewhere_host)"
  by (rule pair_fst_snd)
    (simp_all add: after_signin_def open_signin_def screenshot_def elsewhere_launch
      elsewhere_host_simps url_defs step_defs str_defs cong: eval_congs)

lemma elsewhere_signin_url:
  "\<not> str_in ''signin'' (lower (url elsewhere_host (after_signin elsewhere_host)))"
  by (simp add: url_def elsewhere_host_simps str_defs)

lemma elsewhere_verify:
  "verify_login elsewhere_host (log ''Already logged in!'' SUCCESS (after_signin elsewhere_host)) =
     (Inr False, after_verify elsewhere_host)"
  by (rule pair_fst_snd)
    (simp_all add: after_verify_def verify_login_def elsewhere_host_simps
      step_defs cong: eval_congs)

section \<open>The redirect waiter\<close>

text \<open>
  C1, as amended. \<open>wait_redirect\<close> returns \<open>True\<close> if and only if one of the URLs it polled
  contains \<open>claw.cloud\<close> and, lowercased, does not contain \<open>signin\<close>; it never polls more
  than \<open>max_wait\<close> URLs. When it returns \<open>False\<close>, no polled URL passed that test, and
  either \<open>max_wait\<close> URLs were polled (the bound is exhausted), or the last polled URL is a
  GitHub login URL and it is the twelfth poll or a later one. A poll with an index above
  10 (counted from 0) that finds a GitHub login URL which is not a success URL is the
  last one: the waiter returns \<open>False\<close> there, without running the remaining iterations.
\<close>

theorem wait_redirect_outcome:
  "(fst (wait_redirect H max_wait st) = Inr True \<longleftrightarrow>
      list_ex redirect_ok (polled_urls H 0 max_wait (wait_redirect_start max_wait st)))
   \<and> length (polled_urls H 0 max_wait (wait_redirect_start max_wait st)) \<le> max_wait
   \<and> (fst (wait_redirect H max_wait st) = Inr False \<longrightarrow>
        \<not> list_ex redirect_ok (polled_urls H 0 max_wait (wait_redirect_start max_wait st))
        \<and> (length (polled_urls H 0 max_wait (wait_redirect_start max_wait st)) = max_wait
           \<or> (polled_urls H 0 max_wait (wait_redirect_start max_wait st) \<noteq> []
              \<and> on_github_login (last (polled_urls H 0 max_wait (wait_redirect_start max_wait st)))
              \<and> 11 < length (polled_urls H 0 max_wait (wait_redirect_start max_wait st)))))
   \<and> (\<forall>k<length (polled_urls H 0 max_wait (wait_redirect_start max_wait st)).
        10 < k \<and> on_github_login (polled_urls H 0 max_wait (wait_redirect_start max_wait st) ! k)
          \<and> \<not> redirect_ok (polled_urls H 0 max_wait (wait_redirect_start max_wait st) ! k) \<longrightarrow>
        fst (wait_redirect H max_wait st) = Inr False
          \<and> length (polled_urls H 0 max_wait (wait_redirect_start max_wait st)) = Suc k)"
  using loop_props[of H 0 max_wait "wait_redirect_start max_wait st"]
  by (simp add: wait_redirect_def)

theorem wait_redirect_outcome_witness:
  "list_ex redirect_ok (polled_urls redirecting_host 0 45 (wait_redirect_start 45 example_state))
   \<and> fst (wait_redirect redirecting_host 45 example_state) = Inr True"
proof -
  have "list_ex redirect_ok (polled_urls redirecting_host 0 45 (wait_redirect_start 45 example_state))"
    unfolding redirecting_polls by (simp add: redirect_ok_def eval_defs)
  with wait_redirect_outcome[of redirecting_host 45 example_state] show ?thesis
    by blast
qed

text \<open>
  C1 as stated fails: when the page stays on \<open>github.com/login\<close>, the waiter gives up at the
  twelfth poll, not after the 45 configured iterations.
\<close>

theorem wait_redirect_stuck_counterexample:
  "fst (wait_redirect stuck_host 45 example_state) = Inr False
   \<and> list_all on_github_login (polled_urls stuck_host 0 45 (wait_redirect_start 45 example_state))
   \<and> length (polled_urls stuck_host 0 45 (wait_redirect_start 45 example_state)) = 12
   \<and> length (polled_urls stuck_host 0 45 (wait_redirect_start 45 example_state)) \<noteq> 45"
  unfolding stuck_polls using stuck_result
  by (simp add: on_github_login_def)

section \<open>Cookie persistence\<close>

text \<open>
  C2, as amended. \<open>cookies.json\<close> is touched only after every check of \<open>verify_login\<close> has
  passed. On each failure branch (the URL is not on \<open>claw.cloud\<close>, the URL still has
  \<open>signin\<close> or \<open>login\<close>, no cookie matches), which are exactly the cases in which
  \<open>verify_login\<close> returns \<open>False\<close>, the file is neither opened nor written. When
  \<open>verify_login\<close> returns \<open>True\<close>, the file has been opened and then completely written, and
  its content is the list of those cookies of the browser context whose domain contains
  \<open>claw\<close>, which is not empty. Whenever the file is touched, the checks have passed, and
  either \<open>verify_login\<close> returns \<open>True\<close> with the complete file, or the write itself raised
  and \<open>verify_login\<close> raises with the file opened but not completely written.
\<close>

theorem cookie_file_only_after_checks:
  "(fst (verify_login H st) = Inr False \<longrightarrow>
      file_events (trace (snd (verify_login H st))) = file_events (trace st))
   \<and> (fst (verify_login H st) = Inr True \<longrightarrow>
      (\<exists>title w1 cookies w2.
         page_text H Title (world st) = (Inr title, w1)
       \<and> context_cookies H w1 = (Inr cookies, w2)
       \<and> claw_cookies_of cookies \<noteq> []
       \<and> file_events (trace (snd (verify_login H st))) =
           file_events (trace st) @
             [Opened ''cookies.json'', Written ''cookies.json'' (claw_cookies_of cookies)]))
   \<and> (fst (verify_login H st) = Inr False \<longleftrightarrow>
      (\<exists>title w1.
         page_text H Title (world st) = (Inr title, w1)
       \<and> (\<not> str_in ''claw.cloud'' (url H st)
          \<or> str_in ''signin'' (lower (url H st)) \<or> str_in ''login'' (lower (url H st))
          \<or> (\<exists>cookies w2. context_cookies H w1 = (Inr cookies, w2) \<and> claw_cookies_of cookies = []))))
   \<and> (file_events (trace (snd (verify_login H st))) \<noteq> file_events (trace st) \<longrightarrow>
      (\<exists>title w1 cookies w2.
         page_text H Title (world st) = (Inr title, w1)
       \<and> context_cookies H w1 = (Inr cookies, w2)
       \<and> str_in ''claw.cloud'' (url H st)
       \<and> \<not> str_in ''signin'' (lower (url H st)) \<and> \<not> str_in ''login'' (lower (url H st))
       \<and> claw_cookies_of cookies \<noteq> []
       \<and> ((\<exists>e. fst (verify_login H st) = Inl e)
            \<and> file_events (trace (snd (verify_login H st))) =
                file_events (trace st) @ [Opened ''cookies.json'']
          \<or> fst (verify_login H st) = Inr True
            \<and> file_events (trace (snd (verify_login H st))) =
                file_events (trace st) @
                  [Opened ''cookies.json'', Written ''cookies.json'' (claw_cookies_of cookies)])))"
proof (intro conjI)
  show "fst (verify_login H st) = Inr False \<longrightarrow>
      file_events (trace (snd (verify_login H st))) = file_events (trace st)"
    by (auto simp: verify_login_def prim_defs
        split: prod.splits sum.splits option.splits if_splits)
  show "fst (verify_login H st) = Inr True \<longrightarrow>
      (\<exists>title w1 cookies w2.
         page_text H Title (world st) = (Inr title, w1)
       \<and> context_cookies H w1 = (Inr cookies, w2)
       \<and> claw_cookies_of cookies \<noteq> []
       \<and> file_events (trace (snd (verify_login H st))) =
           file_events (trace st) @
             [Opened ''cookies.json'', Written ''cookies.json'' (claw_cookies_of cookies)])"
    by (auto simp: verify_login_def prim_defs claw_cookies_of_def
        split: prod.splits sum.splits option.splits if_splits)
  show "fst (verify_login H st) = Inr False \<longleftrightarrow>
      (\<exists>title w1.
         page_text H Title (world st) = (Inr title, w1)
       \<and> (\<not> str_in ''claw.cloud'' (url H st)
          \<or> str_in ''signin'' (lower (url H st)) \<or> str_in ''login'' (lower (url H st))
          \<or> (\<exists>cookies w2. context_cookies H w1 = (Inr cookies, w2) \<and> claw_cookies_of cookies = [])))"
    by (auto simp: verify_login_def prim_defs claw_cookies_of_def
        split: prod.splits sum.splits option.splits if_splits)
  show "file_events (trace (snd (verify_login H st))) \<noteq> file_events (trace st) \<longrightarrow>
      (\<exists>title w1 cookies w2.
         page_text H Title (world st) = (Inr title, w1)
       \<and> context_cookies H w1 = (Inr cookies, w2)
       \<and> str_in ''claw.cloud'' (url H st)
       \<and> \<not> str_in ''signin'' (lower (url H st)) \<and> \<not> str_in ''login'' (lower (url H st))
       \<and> claw_cookies_of cookies \<noteq> []
       \<and> ((\<exists>e. fst (verify_login H st) = Inl e)
            \<and> file_events (trace (snd (verify_login H st))) =
                file_events (trace st) @ [Opened ''cookies.json'']
          \<or> fst (verify_login H st) = Inr True
            \<and> file_events (trace (snd (verify_login H st))) =
                file_events (trace st) @
                  [Opened ''cookies.json'', Written ''cookies.json'' (claw_cookies_of cookies)]))"
    by (auto simp: verify_login_def prim_defs claw_cookies_of_def
        split: prod.splits sum.splits option.splits if_splits)
qed

theorem cookie_file_only_after_checks_witness:
  "fst (verify_login console_host example_state) = Inr True
   \<and> file_events (trace (snd (verify_login console_host example_state))) =
       [Opened ''cookies.json'',
        Written ''cookies.json''
          [[(''name'', ''session''), (''value'', ''abc''), (''domain'', ''.run.claw.cloud'')]]]"
proof -
  from cookie_file_only_after_checks[of console_host example_state] console_checks_pass
  obtain title w1 cookies w2 where
    c: "context_cookies console_host w1 = (Inr cookies, w2)" and
    w: "file_events (trace (snd (verify_login console_host example_state))) =
       file_events (trace example_state) @
         [Opened ''cookies.json'', Written ''cookies.json'' (claw_cookies_of cookies)]"
    by blast
  from c have ck: "cookies = example_cookies"
    by (simp add: console_host_def quiet_host_def)
  have cc: "claw_cookies_of example_cookies =
      [[(''name'', ''session''), (''value'', ''abc''), (''domain'', ''.run.claw.cloud'')]]"
    by (simp add: claw_cookies_of_def example_cookies_def cookie_domain_def)
  have tr: "file_events (trace example_state) = []"
    by (simp add: example_state_def)
  from w ck cc tr console_checks_pass show ?thesis
    by simp
qed

text \<open>
  C2 as stated fails: when \<open>json.dump\<close> raises, \<open>verify_login\<close> does not succeed, and yet
  \<open>cookies.json\<close> has been created or truncated, without the filtered cookies in it.
\<close>

theorem cookie_file_left_by_failed_write_counterexample:
  "fst (verify_login full_disk_host example_state) = Inl ''No space left on device''
   \<and> fst (verify_login full_disk_host example_state) \<noteq> Inr True
   \<and> file_events (trace example_state) = []
   \<and> file_events (trace (snd (verify_login full_disk_host example_state))) = [Opened ''cookies.json'']"
  using full_disk_eval by (simp add: example_state_def)

section \<open>The notifier without configuration\<close>

text \<open>
  C8. When \<open>TG_BOT_TOKEN\<close> or \<open>TG_CHAT_ID\<close> is absent from the environment, the notifier
  is constructed disabled and prints that notifications are skipped, and \<open>send_message\<close>,
  \<open>send_photo\<close> and \<open>send_document\<close> return \<open>False\<close> and leave the state as it was: no
  request is posted and nothing else is done.
\<close>

theorem notifier_disabled_without_config:
  assumes "environ ''TG_BOT_TOKEN'' = None \<or> environ ''TG_CHAT_ID'' = None"
    and "telegram st = fst (telegram_init environ)"
  shows "\<not> enabled (fst (telegram_init environ))
       \<and> snd (telegram_init environ) = [Print ''Telegram not configured, notifications skipped'']
       \<and> send_message H message st = (False, st)
       \<and> send_photo H path caption st = (False, st)
       \<and> send_document H path caption st = (False, st)"
  using assms
  by (auto simp: telegram_init_def truthy_def send_message_def send_photo_def send_document_def Let_def)

theorem notifier_disabled_without_config_witness:
  "([''TG_CHAT_ID'' \<mapsto> ''42''] :: string \<rightharpoonup> string) ''TG_BOT_TOKEN'' = None
   \<and> \<not> enabled (telegram (init [''TG_CHAT_ID'' \<mapsto> ''42''] (0::nat)))
   \<and> send_message console_host ''hello'' (init [''TG_CHAT_ID'' \<mapsto> ''42''] 0)
       = (False, init [''TG_CHAT_ID'' \<mapsto> ''42''] 0)
   \<and> send_photo console_host ''01_x.png'' ''c'' (init [''TG_CHAT_ID'' \<mapsto> ''42''] 0)
       = (False, init [''TG_CHAT_ID'' \<mapsto> ''42''] 0)
   \<and> send_document console_host ''cookies.json'' ''c'' (init [''TG_CHAT_ID'' \<mapsto> ''42''] 0)
       = (False, init [''TG_CHAT_ID'' \<mapsto> ''42''] 0)"
proof -
  have a: "([''TG_CHAT_ID'' \<mapsto> ''42''] :: string \<rightharpoonup> string) ''TG_BOT_TOKEN'' = None
           \<or> ([''TG_CHAT_ID'' \<mapsto> ''42''] :: string \<rightharpoonup> string) ''TG_CHAT_ID'' = None"
    by simp
  have b: "telegram (init [''TG_CHAT_ID'' \<mapsto> ''42''] (0::nat)) = fst (telegram_init [''TG_CHAT_ID'' \<mapsto> ''42''])"
    by (simp add: init_def)
  from notifier_disabled_without_config[OF a b] b show ?thesis
    by simp
qed

section \<open>The error banner stops the GitHub login\<close>

text \<open>
  C6. When the form has been submitted and \<open>check_github_error\<close> returns a non-empty text,
  \<open>login_github\<close> returns \<open>False\<close> at once: after the state in which the checks start, the
  only calls made are the visibility and text queries of the banner check on the
  configured selectors, followed by the one error log line. The device-verification,
  two-factor and login-page checks are not attempted.
\<close>

theorem login_github_stops_at_error_banner:
  assumes "login_github_submit H st = (Inr (Some current_url), st1)"
    and "check_github_error H st1 = (Some txt, st2)"
    and "txt \<noteq> []"
  shows "login_github H st = (Inr False, log (''GitHub error: '' @ txt) ERROR st2)
       \<and> (\<exists>evs. trace (snd (login_github H st)) =
                  trace st1 @ evs @ [Print (icon ERROR @ '' GitHub error: '' @ txt)]
              \<and> list_all (banner_probe error_selectors) evs)"
proof -
  have r: "login_github H st = (Inr False, log (''GitHub error: '' @ txt) ERROR st2)"
    using assms by (simp add: login_github_def login_github_checks_def seq_def truthy_def str_of_opt_def)
  from first_error_text_trace[of H error_selectors st1] assms(2)
  obtain evs where "trace st2 = trace st1 @ evs" "list_all (banner_probe error_selectors) evs"
    by (auto simp: check_github_error_def)
  with r show ?thesis
    by (simp add: log_def print_def emit_def Let_def)
qed

theorem login_github_stops_at_error_banner_witness:
  "fst (login_github_submit banner_host example_state) = Inr (Some ''https://github.com/session'')
   \<and> fst (check_github_error banner_host (snd (login_github_submit banner_host example_state)))
       = Some ''Incorrect username or password.''
   \<and> fst (login_github banner_host example_state) = Inr False"
proof -
  have a: "login_github_submit banner_host example_state =
           (Inr (Some ''https://github.com/session''), snd (login_github_submit banner_host example_state))"
    using banner_submit by (metis prod.collapse)
  have b: "check_github_error banner_host (snd (login_github_submit banner_host example_state)) =
           (Some ''Incorrect username or password.'',
            snd (check_github_error banner_host (snd (login_github_submit banner_host example_state))))"
    using banner_check by (metis prod.collapse)
  have c: "''Incorrect username or password.'' \<noteq> []" by simp
  from login_github_stops_at_error_banner[OF a b c] banner_submit banner_check show ?thesis
    by simp
qed

section \<open>Missing credentials\<close>

text \<open>
  C3. When \<open>GH_USERNAME\<close> or \<open>GH_PAT\<close> is absent from the environment (one of them or
  both), the run ends by \<open>sys.exit(1)\<close>, so with exit status 1, and its trace has no
  browser call at all: Playwright is never started.
\<close>

theorem missing_credentials_exit:
  assumes "environ ''GH_USERNAME'' = None \<or> environ ''GH_PAT'' = None"
  shows "fst (main H environ w) = SysExit 1
       \<and> exit_status (fst (main H environ w)) = 1
       \<and> filter browser_event (trace (snd (main H environ w))) = []"
proof -
  obtain b st1 where vc: "validate_credentials (print_banner (init environ w)) = (b, st1)"
    by (cases "validate_credentials (print_banner (init environ w))")
  have "\<not> truthy (username (print_banner (init environ w)))
      \<or> \<not> truthy (token (print_banner (init environ w)))"
    using assms by (auto simp: print_banner_def init_def truthy_def prim_defs)
  then have "\<not> fst (validate_credentials (print_banner (init environ w)))"
    by (rule validate_credentials_missing)
  with vc have v: "\<not> b"
    by simp
  have "filter browser_event (trace (snd (validate_credentials (print_banner (init environ w))))) = []"
    by (simp add: validate_credentials_browser print_banner_def init_def telegram_init_def
        prim_defs browser_event_def)
  with vc have t: "filter browser_event (trace st1) = []"
    by simp
  from v t vc show ?thesis
    by (simp add: main_def run_def send_notification_browser)
qed

theorem missing_credentials_exit_witness:
  "([''GH_USERNAME'' \<mapsto> ''alice'', ''TG_BOT_TOKEN'' \<mapsto> ''tok'', ''TG_CHAT_ID'' \<mapsto> ''42''] :: string \<rightharpoonup> string) ''GH_PAT'' = None
   \<and> fst (main console_host [''GH_USERNAME'' \<mapsto> ''alice'', ''TG_BOT_TOKEN'' \<mapsto> ''tok'', ''TG_CHAT_ID'' \<mapsto> ''42''] 0) = SysExit 1
   \<and> filter browser_event (trace (snd (main console_host
         [''GH_USERNAME'' \<mapsto> ''alice'', ''TG_BOT_TOKEN'' \<mapsto> ''tok'', ''TG_CHAT_ID'' \<mapsto> ''42''] 0))) = []"
proof -
  have a: "([''GH_USERNAME'' \<mapsto> ''alice'', ''TG_BOT_TOKEN'' \<mapsto> ''tok'', ''TG_CHAT_ID'' \<mapsto> ''42''] :: string \<rightharpoonup> string) ''GH_PAT'' = None"
    by simp
  then have "([''GH_USERNAME'' \<mapsto> ''alice'', ''TG_BOT_TOKEN'' \<mapsto> ''tok'', ''TG_CHAT_ID'' \<mapsto> ''42''] :: string \<rightharpoonup> string) ''GH_USERNAME'' = None
      \<or> ([''GH_USERNAME'' \<mapsto> ''alice'', ''TG_BOT_TOKEN'' \<mapsto> ''tok'', ''TG_CHAT_ID'' \<mapsto> ''42''] :: string \<rightharpoonup> string) ''GH_PAT'' = None"
    by (rule disjI2)
  from missing_credentials_exit[OF this, of console_host 0] a show ?thesis
    by blast
qed


section \<open>The debug flag\<close>

text \<open>
  C10. Two runs whose environments differ only in \<open>DEBUG_MODE\<close> end in the same way and
  leave the same trace (prints, browser calls, requests posted, files written), the same
  log lines, the same screenshots and the same world: the final states differ at most in
  the field \<open>debug\<close> itself.
\<close>

theorem debug_mode_unobservable:
  "fst (main H (environ(''DEBUG_MODE'' := v)) w) = fst (main H environ w)
   \<and> trace (snd (main H (environ(''DEBUG_MODE'' := v)) w)) = trace (snd (main H environ w))
   \<and> logs (snd (main H (environ(''DEBUG_MODE'' := v)) w)) = logs (snd (main H environ w))
   \<and> screenshots (snd (main H (environ(''DEBUG_MODE'' := v)) w)) = screenshots (snd (main H environ w))
   \<and> world (snd (main H (environ(''DEBUG_MODE'' := v)) w)) = world (snd (main H environ w))
   \<and> snd (main H (environ(''DEBUG_MODE'' := v)) w) =
       (snd (main H environ w))\<lparr>debug := debug (init (environ(''DEBUG_MODE'' := v)) w)\<rparr>"
  by (simp add: main_def init_debug_mode run_debug pull_prod)

theorem debug_mode_unobservable_witness:
  "fst (main console_host [''GH_USERNAME'' \<mapsto> ''alice'', ''GH_PAT'' \<mapsto> ''t'', ''DEBUG_MODE'' \<mapsto> ''false''] 0)
     = fst (main console_host [''GH_USERNAME'' \<mapsto> ''alice'', ''GH_PAT'' \<mapsto> ''t''] 0)
   \<and> trace (snd (main console_host [''GH_USERNAME'' \<mapsto> ''alice'', ''GH_PAT'' \<mapsto> ''t'', ''DEBUG_MODE'' \<mapsto> ''false''] 0))
     = trace (snd (main console_host [''GH_USERNAME'' \<mapsto> ''alice'', ''GH_PAT'' \<mapsto> ''t''] 0))"
  using debug_mode_unobservable[of console_host "[''GH_USERNAME'' \<mapsto> ''alice'', ''GH_PAT'' \<mapsto> ''t'']" "Some ''false''" 0]
  by simp

section \<open>The result of the keep-alive visits\<close>



section \<open>A session that is already logged in\<close>

text \<open>
  Claim C7. If after opening the sign-in page the current URL (lowercased) does not contain
  \<open>signin\<close>, the driver treats the session as already authenticated: it runs the
  verification step and the keep-alive visits, then exits with status 0, without ever
  reaching the GitHub-button click step or any later login step.

  This holds only when the verification succeeds. What is proved, for a run with valid
  credentials whose browser has started, whose sign-in page has been opened without an
  exception and whose URL then has no \<open>signin\<close>: the \<open>try\<close> block continues with the
  branch of lines 427 to 435 and nothing else; in the whole run there is no click, no
  filling of a field, no query for a visible element and no reading of the text or the
  content of the page, whatever happens in that branch; when \<open>verify_login\<close> returns
  \<open>True\<close> and \<open>keepalive\<close> returns, the success notification is sent and \<open>run\<close> returns
  (status 0), provided that closing the browser and leaving \<open>sync_playwright\<close> do not
  raise; when \<open>verify_login\<close> returns \<open>False\<close>, the keep-alive visits are skipped, the
  failure notification is sent and the process exits with status 1.
\<close>

theorem no_signin_page_run:
  "validate_credentials (print_banner st) = (True, t1) \<longrightarrow>
   life H Start t1 = (Inr (), p1) \<longrightarrow>
   start_browser H p1 = (Inr (), p2) \<longrightarrow>
   open_signin H p2 = (Inr (), t2) \<longrightarrow>
   \<not> str_in ''signin'' (lower (url H t2)) \<longrightarrow>
     session H p2 = already_logged_in H t2
     \<and> filter login_step_event (trace (snd (run H st))) = filter login_step_event (trace st)
     \<and> (verify_login H (log ''Already logged in!'' SUCCESS t2) = (Inr True, t3) \<longrightarrow>
        keepalive H t3 = (Inr b, t4) \<longrightarrow>
        life H Close
          (print (nl @ ''Success: already logged in!'' @ nl) (send_notification H True [] t4))
          = (Inr (), c1) \<longrightarrow>
        life H Stop c1 = (Inr (), c2) \<longrightarrow>
          run H st = (Returned, c2) \<and> exit_status (fst (run H st)) = 0)
     \<and> (verify_login H (log ''Already logged in!'' SUCCESS t2) = (Inr False, t3) \<longrightarrow>
        life H Close (send_notification H False ''Verifying the login state failed'' t3)
          = (Inr (), d1) \<longrightarrow>
        life H Stop d1 = (Inr (), d2) \<longrightarrow>
          run H st = (SysExit 1, d2) \<and> exit_status (fst (run H st)) = 1)"
proof (intro impI conjI)
  assume v: "validate_credentials (print_banner st) = (True, t1)"
    and a: "life H Start t1 = (Inr (), p1)"
    and b: "start_browser H p1 = (Inr (), p2)"
    and o: "open_signin H p2 = (Inr (), t2)"
    and u: "\<not> str_in ''signin'' (lower (url H t2))"
  show s: "session H p2 = already_logged_in H t2"
    by (rule session_already_logged_in[OF o u])
  have "steps t2 = steps p2"
    using plain_steps(7)[of H p2] o by simp
  then have "steps (snd (session H p2)) = steps p2"
    by (simp add: s)
  from with_playwright_steps[OF a b this]
  have "steps (snd (run H st)) = steps t1"
    by (simp add: run_valid[OF v])
  moreover have "steps t1 = steps st"
    using plain_steps(4)[of "print_banner st"] v by simp
  ultimately show "filter login_step_event (trace (snd (run H st))) = filter login_step_event (trace st)"
    by (simp add: steps_def)
  {
    assume l: "verify_login H (log ''Already logged in!'' SUCCESS t2) = (Inr True, t3)"
      and k: "keepalive H t3 = (Inr b, t4)"
      and c: "life H Close
          (print (nl @ ''Success: already logged in!'' @ nl) (send_notification H True [] t4))
          = (Inr (), c1)"
      and d: "life H Stop c1 = (Inr (), c2)"
    have s': "session H p2 = (Inr Completed,
        print (nl @ ''Success: already logged in!'' @ nl) (send_notification H True [] t4))"
      by (simp add: s already_logged_in_verified[OF l k])
    show r: "run H st = (Returned, c2)"
      by (simp add: run_valid[OF v] with_playwright_session[OF a b s' c d])
    show "exit_status (fst (run H st)) = 0"
      by (simp add: r)
  }
  {
    assume l: "verify_login H (log ''Already logged in!'' SUCCESS t2) = (Inr False, t3)"
      and c: "life H Close (send_notification H False ''Verifying the login state failed'' t3)
          = (Inr (), d1)"
      and d: "life H Stop d1 = (Inr (), d2)"
    have s': "session H p2 =
        (Inr (Exited 1), send_notification H False ''Verifying the login state failed'' t3)"
      by (simp add: s already_logged_in_rejected[OF l])
    show r: "run H st = (SysExit 1, d2)"
      by (simp add: run_valid[OF v] with_playwright_session[OF a b s' c d])
    show "exit_status (fst (run H st)) = 1"
      by (simp add: r)
  }
qed

text \<open>
  On the console page, with its cookies, the run verifies, visits both pages and returns.
\<close>

theorem no_signin_page_run_witness:
  "session console_host (after_launch console_host)
     = already_logged_in console_host (after_signin console_host)
   \<and> verify_login console_host (log ''Already logged in!'' SUCCESS (after_signin console_host))
       = (Inr True, after_verify console_host)
   \<and> keepalive console_host (after_verify console_host) = (Inr True, after_keepalive console_host)
   \<and> filter login_step_event (trace (snd (run console_host example_state))) = []
   \<and> fst (run console_host example_state) = Returned
   \<and> exit_status (fst (run console_host example_state)) = 0"
  using no_signin_page_run [of example_state after_banner console_host
      "after_start console_host" "after_launch console_host" "after_signin console_host"
      "after_verify console_host" True "after_keepalive console_host"
      "emit (Life Close) (print (nl @ ''Success: already logged in!'' @ nl)
         (send_notification console_host True [] (after_keepalive console_host)))"
      "emit (Life Stop) (emit (Life Close) (print (nl @ ''Success: already logged in!'' @ nl)
         (send_notification console_host True [] (after_keepalive console_host))))"]
  by (clarsimp simp add: after_banner console_launch console_signin console_signin_url
      console_verify console_keepalive life_console[of Close] life_console[of Stop] example_trace)

text \<open>
  When the sign-in address answers with a page of another site, the URL has no \<open>signin\<close>
  but \<open>verify_login\<close> returns \<open>False\<close> at its first check: the process exits with status
  1, without the keep-alive visits.
\<close>

theorem unverified_session_exits_1_counterexample:
  "open_signin elsewhere_host (after_launch elsewhere_host) = (Inr (), after_signin elsewhere_host)
   \<and> str_in ''signin'' (lower (url elsewhere_host (after_signin elsewhere_host))) = False
   \<and> fst (verify_login elsewhere_host
            (log ''Already logged in!'' SUCCESS (after_signin elsewhere_host))) = Inr False
   \<and> fst (run elsewhere_host example_state) = SysExit 1
   \<and> exit_status (fst (run elsewhere_host example_state)) = 1"
proof -
  have s: "session elsewhere_host (after_launch elsewhere_host) =
      (Inr (Exited 1),
       send_notification elsewhere_host False ''Verifying the login state failed''
         (after_verify elsewhere_host))"
    by (simp add: session_already_logged_in[OF elsewhere_signin elsewhere_signin_url]
        already_logged_in_rejected[OF elsewhere_verify])
  have "run elsewhere_host example_state =
      (SysExit 1, emit (Life Stop) (emit (Life Close)
         (send_notification elsewhere_host False ''Verifying the login state failed''
           (after_verify elsewhere_host))))"
    by (simp add: run_valid[OF after_banner(1)]
        with_playwright_session[OF elsewhere_launch(1,2) s life_example(2) life_example(2)])
  then show ?thesis
    by (simp add: elsewhere_signin elsewhere_signin_url elsewhere_verify)
qed

end
